theory Spec2Isabelle
  imports Complex_Main "HOL-Library.Sublist"
begin

section \<open>Text\<close>

text \<open>
  A JavaScript string is modelled by the bytes of its UTF-8 encoding, as a \<open>string\<close>
  (a string with an unpaired surrogate has no such encoding and is outside the model).
  Every index the plugin computes (\<open>substring(8)\<close>, \<open>substring(9)\<close>) follows an ASCII
  prefix, so byte offsets and UTF-16 offsets coincide where they are used. Text that is
  not ASCII (the plugin's Chinese messages, emoji) is written out byte by byte.
\<close>

definition startsWith :: "string \<Rightarrow> string \<Rightarrow> bool" where
  "startsWith s p = prefix p s"

fun str_includes :: "string \<Rightarrow> string \<Rightarrow> bool" where
  "str_includes [] p = (p = [])"
| "str_includes (c # cs) p = (prefix p (c # cs) \<or> str_includes cs p)"

definition substring :: "nat \<Rightarrow> string \<Rightarrow> string" where
  "substring n s = drop n s"

text \<open>\<open>s.split(sep)\<close> for a one-character separator: never empty, one more piece than
  there are separators.\<close>

fun split_on :: "char \<Rightarrow> string \<Rightarrow> string list" where
  "split_on sep [] = [[]]"
| "split_on sep (c # cs) =
     (if c = sep then [] # split_on sep cs
      else (case split_on sep cs of [] \<Rightarrow> [[c]] | w # ws \<Rightarrow> (c # w) # ws))"

text \<open>\<open>s.replace(pat, rep)\<close> with a string pattern: the first occurrence only.\<close>

fun replace_first :: "string \<Rightarrow> string \<Rightarrow> string \<Rightarrow> string" where
  "replace_first pat rep [] = (if pat = [] then rep else [])"
| "replace_first pat rep (c # cs) =
     (if prefix pat (c # cs) then rep @ drop (length pat) (c # cs)
      else c # replace_first pat rep cs)"

text \<open>
  \<open>toLowerCase\<close> on the ASCII letters. Letters beyond ASCII keep their bytes; no such
  letter lowers to a run of ASCII letters that could complete one of the words the plugin
  looks for (\<open>magnet\<close>, \<open>quota\<close>, \<open>limit\<close>, \<open>frequent\<close>, \<open>rate\<close>), so the searches on the
  lowered text are the ones of the source.
\<close>

definition lower_char :: "char \<Rightarrow> char" where
  "lower_char c =
     (case map_of (zip ''ABCDEFGHIJKLMNOPQRSTUVWXYZ'' ''abcdefghijklmnopqrstuvwxyz'') c of
        None \<Rightarrow> c | Some l \<Rightarrow> l)"

definition toLowerCase :: "string \<Rightarrow> string" where
  "toLowerCase s = map lower_char s"

text \<open>
  The characters ECMAScript counts as white space or line terminators, each as its UTF-8
  bytes: TAB, LF, VT, FF, CR and SP, which are single bytes, and U+00A0, U+1680, U+2000 to
  U+200A, U+2028, U+2029, U+202F, U+205F, U+3000 and U+FEFF. The regular expression class
  \<open>\s\<close> and \<open>parseInt\<close>'s trimming use the same set. \<open>ws_len s\<close> is the number of
  bytes of the white space character \<open>s\<close> starts with, 0 if it starts with none.
\<close>

definition in_range :: "nat \<Rightarrow> nat \<Rightarrow> char \<Rightarrow> bool" where
  "in_range lo hi c = (lo \<le> of_char c \<and> (of_char c :: nat) \<le> hi)"

definition wide_white_space :: "string list" where
  "wide_white_space =
     [[CHR 0xC2, CHR 0xA0], [CHR 0xE1, CHR 0x9A, CHR 0x80],
      [CHR 0xE2, CHR 0x80, CHR 0x80], [CHR 0xE2, CHR 0x80, CHR 0x81],
      [CHR 0xE2, CHR 0x80, CHR 0x82], [CHR 0xE2, CHR 0x80, CHR 0x83],
      [CHR 0xE2, CHR 0x80, CHR 0x84], [CHR 0xE2, CHR 0x80, CHR 0x85],
      [CHR 0xE2, CHR 0x80, CHR 0x86], [CHR 0xE2, CHR 0x80, CHR 0x87],
      [CHR 0xE2, CHR 0x80, CHR 0x88], [CHR 0xE2, CHR 0x80, CHR 0x89],
      [CHR 0xE2, CHR 0x80, CHR 0x8A], [CHR 0xE2, CHR 0x80, CHR 0xA8],
      [CHR 0xE2, CHR 0x80, CHR 0xA9], [CHR 0xE2, CHR 0x80, CHR 0xAF],
      [CHR 0xE2, CHR 0x81, CHR 0x9F], [CHR 0xE3, CHR 0x80, CHR 0x80],
      [CHR 0xEF, CHR 0xBB, CHR 0xBF]]"

definition ws_len :: "string \<Rightarrow> nat" where
  "ws_len s =
     (case s of
        [] \<Rightarrow> 0
      | c # cs \<Rightarrow>
          if in_range 0x09 0x0D c \<or> in_range 0x20 0x20 c then 1
          else if in_range 0x00 0x7F c then 0
          else (case find (\<lambda>w. prefix w s) wide_white_space of
                  None \<Rightarrow> 0
                | Some w \<Rightarrow> length w))"

section \<open>Numbers and their text\<close>

text \<open>
  The plugin's numbers are byte counts and millisecond timestamps. They are modelled as
  exact integers, with \<open>NaN\<close> added because \<open>parseInt\<close> and \<open>Math.log\<close> produce it. An
  IEEE double agrees with the exact integer up to \<open>2 ^ 53\<close>; fractions, infinities and
  larger magnitudes, where a double rounds, are outside the model.
\<close>

datatype number = NaN | Fin int

definition digit_char :: "nat \<Rightarrow> char" where
  "digit_char d = ''0123456789'' ! d"

fun dec :: "nat \<Rightarrow> string" where
  "dec n = (if n < 10 then [digit_char n] else dec (n div 10) @ [digit_char (n mod 10)])"

declare dec.simps [simp del]

definition int_to_string :: "int \<Rightarrow> string" where
  "int_to_string n = (if n < 0 then CHR ''-'' # dec (nat (- n)) else dec (nat n))"

text \<open>The value of a character as a digit of the given radix, if it is one.\<close>

definition digit_val :: "nat \<Rightarrow> char \<Rightarrow> nat option" where
  "digit_val radix c =
     (case map_of (zip ''0123456789abcdefABCDEF''
                       [0, 1, 2, 3, 4, 5, 6, 7, 8, 9, 10, 11, 12, 13, 14, 15, 10, 11, 12, 13, 14, 15]) c of
        None \<Rightarrow> None
      | Some v \<Rightarrow> if v < radix then Some v else None)"

fun digits_value :: "nat \<Rightarrow> nat \<Rightarrow> string \<Rightarrow> nat" where
  "digits_value radix acc [] = acc"
| "digits_value radix acc (c # cs) =
     (case digit_val radix c of
        None \<Rightarrow> acc
      | Some v \<Rightarrow> digits_value radix (acc * radix + v) cs)"

function trim_start :: "string \<Rightarrow> string" where
  "trim_start s = (if ws_len s = 0 \<or> s = [] then s else trim_start (drop (ws_len s) s))"
  by pat_completeness auto
termination
  by (relation "measure length") auto

declare trim_start.simps [simp del]

text \<open>
  \<open>parseInt(s)\<close> with no radix: leading white space is skipped, a sign is read, \<open>0x\<close> or
  \<open>0X\<close> selects radix 16, and the longest run of digits is the value; no digit at all
  gives \<open>NaN\<close>. What follows the digits is ignored.
\<close>

definition parseInt :: "string \<Rightarrow> number" where
  "parseInt input =
     (let s = trim_start input;
          neg = (s \<noteq> [] \<and> hd s = CHR ''-'');
          s1 = (if s \<noteq> [] \<and> (hd s = CHR ''+'' \<or> hd s = CHR ''-'') then tl s else s);
          hex = (prefix ''0x'' s1 \<or> prefix ''0X'' s1);
          radix = (if hex then 16 else 10);
          s2 = (if hex then drop 2 s1 else s1)
      in case s2 of
           [] \<Rightarrow> NaN
         | c # _ \<Rightarrow>
             (case digit_val radix c of
                None \<Rightarrow> NaN
              | Some _ \<Rightarrow>
                  let v = int (digits_value radix 0 s2)
                  in Fin (if neg then - v else v)))"

section \<open>formatBytes\<close>

text \<open>
  \<open>Math.floor(Math.log(bytes) / Math.log(1024))\<close> for a positive integer, the quotient of
  the two logarithms being taken as exact: the number of times \<open>bytes\<close> can be divided by
  1024 before it drops below 1024. It is shown below to be the floor of the real
  logarithm to base 1024.
\<close>

fun ilog1024 :: "nat \<Rightarrow> nat" where
  "ilog1024 n = (if n < 1024 then 0 else Suc (ilog1024 (n div 1024)))"

declare ilog1024.simps [simp del]

text \<open>
  \<open>const sizes = ['B', 'KB', 'MB', 'GB', 'TB']\<close>; \<open>sizes[i]\<close> past the end is
  \<open>undefined\<close>, which string concatenation renders as the word itself.
\<close>

definition sizes :: "string list" where
  "sizes = [''B'', ''KB'', ''MB'', ''GB'', ''TB'']"

definition sizes_at :: "nat \<Rightarrow> string" where
  "sizes_at i = (if i < length sizes then sizes ! i else ''undefined'')"

text \<open>
  \<open>parseFloat(x.toFixed(2))\<close> rendered as text, from \<open>h\<close>, the value in hundredths:
  \<open>toFixed(2)\<close> writes two decimals and \<open>parseFloat\<close> followed by the conversion back to
  a string drops the trailing zeros.
\<close>

definition hundredths_to_string :: "nat \<Rightarrow> string" where
  "hundredths_to_string h =
     (if h mod 100 = 0 then dec (h div 100)
      else if h mod 10 = 0 then dec (h div 100) @ ''.'' @ [digit_char (h mod 100 div 10)]
      else dec (h div 100) @ ''.'' @ [digit_char (h mod 100 div 10), digit_char (h mod 10)])"

text \<open>
  \<open>(bytes / Math.pow(k, i)).toFixed(2)\<close> in hundredths: the nearest multiple of 0.01,
  the larger one on a tie.
\<close>

definition to_fixed2 :: "nat \<Rightarrow> nat \<Rightarrow> nat" where
  "to_fixed2 n d = (200 * n + d) div (2 * d)"

definition formatBytes :: "number \<Rightarrow> string" where
  "formatBytes bytes =
     (case bytes of
        NaN \<Rightarrow> ''NaN undefined''
      | Fin b \<Rightarrow>
          if b = 0 then ''0 B''
          else if b < 0 then ''NaN undefined''
          else let k = 1024;
                   i = ilog1024 (nat b)
               in hundredths_to_string (to_fixed2 (nat b) (k ^ i)) @ '' '' @ sizes_at i)"

section \<open>Percent-decoding and UTF-8\<close>

text \<open>The four bits of a hexadecimal digit, lowest first.\<close>

definition nibble :: "char \<Rightarrow> (bool \<times> bool \<times> bool \<times> bool) option" where
  "nibble c =
     map_of
       [(CHR ''0'', (False, False, False, False)), (CHR ''1'', (True, False, False, False)),
        (CHR ''2'', (False, True, False, False)), (CHR ''3'', (True, True, False, False)),
        (CHR ''4'', (False, False, True, False)), (CHR ''5'', (True, False, True, False)),
        (CHR ''6'', (False, True, True, False)), (CHR ''7'', (True, True, True, False)),
        (CHR ''8'', (False, False, False, True)), (CHR ''9'', (True, False, False, True)),
        (CHR ''a'', (False, True, False, True)), (CHR ''b'', (True, True, False, True)),
        (CHR ''c'', (False, False, True, True)), (CHR ''d'', (True, False, True, True)),
        (CHR ''e'', (False, True, True, True)), (CHR ''f'', (True, True, True, True)),
        (CHR ''A'', (False, True, False, True)), (CHR ''B'', (True, True, False, True)),
        (CHR ''C'', (False, False, True, True)), (CHR ''D'', (True, False, True, True)),
        (CHR ''E'', (False, True, True, True)), (CHR ''F'', (True, True, True, True))] c"

text \<open>The byte that \<open>%ab\<close> stands for; \<open>None\<close> unless both are hexadecimal digits.\<close>

definition hex_byte :: "char \<Rightarrow> char \<Rightarrow> char option" where
  "hex_byte a b =
     (case nibble a of
        None \<Rightarrow> None
      | Some (h0, h1, h2, h3) \<Rightarrow>
          (case nibble b of
             None \<Rightarrow> None
           | Some (l0, l1, l2, l3) \<Rightarrow> Some (Char l0 l1 l2 l3 h0 h1 h2 h3)))"

text \<open>The number of leading 1 bits of a byte, 5 standing for "more than four".\<close>

definition leading_ones :: "char \<Rightarrow> nat" where
  "leading_ones c =
     (let v = (of_char c :: nat)
      in if v < 0x80 then 0 else if v < 0xC0 then 1 else if v < 0xE0 then 2
         else if v < 0xF0 then 3 else if v < 0xF8 then 4 else 5)"

text \<open>The bytes are the UTF-8 encoding of exactly one Unicode code point: no overlong
  form, no surrogate, nothing beyond U+10FFFF.\<close>

fun well_formed_utf8 :: "string \<Rightarrow> bool" where
  "well_formed_utf8 [a] = in_range 0x00 0x7F a"
| "well_formed_utf8 [a, b] = (in_range 0xC2 0xDF a \<and> in_range 0x80 0xBF b)"
| "well_formed_utf8 [a, b, c] =
     ((in_range 0xE0 0xE0 a \<and> in_range 0xA0 0xBF b
       \<or> in_range 0xE1 0xEC a \<and> in_range 0x80 0xBF b
       \<or> in_range 0xED 0xED a \<and> in_range 0x80 0x9F b
       \<or> in_range 0xEE 0xEF a \<and> in_range 0x80 0xBF b)
      \<and> in_range 0x80 0xBF c)"
| "well_formed_utf8 [a, b, c, d] =
     ((in_range 0xF0 0xF0 a \<and> in_range 0x90 0xBF b
       \<or> in_range 0xF1 0xF3 a \<and> in_range 0x80 0xBF b
       \<or> in_range 0xF4 0xF4 a \<and> in_range 0x80 0x8F b)
      \<and> in_range 0x80 0xBF c \<and> in_range 0x80 0xBF d)"
| "well_formed_utf8 _ = False"

text \<open>
  \<open>decodeURIComponent\<close>, after ECMAScript's \<open>Decode\<close>: a character other than \<open>%\<close> is
  copied; \<open>%\<close> must be followed by two hexadecimal digits; an escaped byte with the high
  bit set opens a sequence of as many escapes as its leading 1 bits say, which must encode
  one code point. Anything else throws \<open>URIError\<close>, here \<open>None\<close>. \<open>need\<close> counts the escapes
  still owed to the sequence collected in \<open>acc\<close>.
\<close>

fun decode_from :: "nat \<Rightarrow> string \<Rightarrow> string \<Rightarrow> string option" where
  "decode_from need acc [] = (if need = 0 then Some [] else None)"
| "decode_from need acc (c # s) =
     (if c = CHR ''%'' then
        (case s of
           a # b # s' \<Rightarrow>
             (case hex_byte a b of
                None \<Rightarrow> None
              | Some y \<Rightarrow>
                  if need = 0 then
                    (let n = leading_ones y
                     in if n = 0 then map_option ((#) y) (decode_from 0 [] s')
                        else if n = 1 \<or> 4 < n then None
                        else decode_from (n - 1) [y] s')
                  else if need = 1 then
                    (if well_formed_utf8 (acc @ [y])
                     then map_option ((@) (acc @ [y])) (decode_from 0 [] s')
                     else None)
                  else decode_from (need - 1) (acc @ [y]) s')
         | _ \<Rightarrow> None)
      else if need = 0 then map_option ((#) c) (decode_from 0 [] s)
      else None)"

definition decodeURIComponent :: "string \<Rightarrow> string option" where
  "decodeURIComponent s = decode_from 0 [] s"

text \<open>The URL standard's percent-decode never fails: a \<open>%\<close> that is not followed by two
  hexadecimal digits stays as it is.\<close>

fun percent_decode :: "string \<Rightarrow> string" where
  "percent_decode [] = []"
| "percent_decode (c # s) =
     (if c = CHR ''%'' then
        (case s of
           a # b # s' \<Rightarrow>
             (case hex_byte a b of
                None \<Rightarrow> c # percent_decode s
              | Some y \<Rightarrow> y # percent_decode s')
         | _ \<Rightarrow> c # percent_decode s)
      else c # percent_decode s)"

text \<open>U+FFFD, the replacement character.\<close>

definition replacement :: string where
  "replacement = [CHR 0xEF, CHR 0xBF, CHR 0xBD]"

text \<open>
  "UTF-8 decode without BOM" of the Encoding standard, seen on the bytes: a well-formed
  sequence is kept, and each maximal ill-formed part becomes U+FFFD. \<open>need\<close> is the number
  of continuation bytes awaited, \<open>lo\<close> and \<open>hi\<close> bound the next one, \<open>acc\<close> holds the
  sequence so far. A byte that cannot continue the sequence ends it and is read again.
\<close>

fun utf8_lossy :: "nat \<Rightarrow> nat \<Rightarrow> nat \<Rightarrow> string \<Rightarrow> string \<Rightarrow> string" where
  "utf8_lossy need lo hi acc [] = (if need = 0 then [] else replacement)"
| "utf8_lossy need lo hi acc (c # s) =
     (if need = 0 then
        (if in_range 0x00 0x7F c then c # utf8_lossy 0 0x80 0xBF [] s
         else if in_range 0xC2 0xDF c then utf8_lossy 1 0x80 0xBF [c] s
         else if in_range 0xE0 0xEF c then
           utf8_lossy 2 (if in_range 0xE0 0xE0 c then 0xA0 else 0x80)
                        (if in_range 0xED 0xED c then 0x9F else 0xBF) [c] s
         else if in_range 0xF0 0xF4 c then
           utf8_lossy 3 (if in_range 0xF0 0xF0 c then 0x90 else 0x80)
                        (if in_range 0xF4 0xF4 c then 0x8F else 0xBF) [c] s
         else replacement @ utf8_lossy 0 0x80 0xBF [] s)
      else if \<not> in_range lo hi c then replacement @ utf8_lossy 0 0x80 0xBF [] (c # s)
      else if need = 1 then acc @ [c] @ utf8_lossy 0 0x80 0xBF [] s
      else utf8_lossy (need - 1) 0x80 0xBF (acc @ [c]) s)"

definition utf8_decode :: "string \<Rightarrow> string" where
  "utf8_decode s = utf8_lossy 0 0x80 0xBF [] s"

section \<open>URL and URLSearchParams\<close>

text \<open>
  \<open>new URL(s).search\<close>, after the URL standard, for what the plugin gives it: an
  absolute URL of a scheme that is not special (\<open>magnet\<close>) with an opaque path. The input
  loses its leading and trailing C0 controls and spaces and every tab and newline; a
  scheme of letters, digits, \<open>+\<close>, \<open>-\<close> and \<open>.\<close> must come first, ended by a colon, or the
  constructor throws \<open>TypeError\<close> (\<open>None\<close>); the query runs from the first \<open>?\<close>, if no \<open>#\<close>
  comes before it, to the next \<open>#\<close>, and is percent-encoded with the query set. Hosts and
  the special schemes (\<open>http\<close>, \<open>file\<close>, ...) are not modelled: the extractor only passes
  text that starts with \<open>magnet:?\<close>.
\<close>

definition url_preprocess :: "string \<Rightarrow> string" where
  "url_preprocess s =
     filter (\<lambda>c. c \<noteq> CHR 0x09 \<and> c \<noteq> CHR 0x0A \<and> c \<noteq> CHR 0x0D)
       (rev (dropWhile (in_range 0x00 0x20) (rev (dropWhile (in_range 0x00 0x20) s))))"

definition is_alpha :: "char \<Rightarrow> bool" where
  "is_alpha c = (in_range 0x41 0x5A c \<or> in_range 0x61 0x7A c)"

definition is_scheme_char :: "char \<Rightarrow> bool" where
  "is_scheme_char c =
     (is_alpha c \<or> in_range 0x30 0x39 c \<or> c = CHR ''+'' \<or> c = CHR ''-'' \<or> c = CHR ''.'')"

definition url_scheme :: "string \<Rightarrow> (string \<times> string) option" where
  "url_scheme s =
     (case s of
        [] \<Rightarrow> None
      | c # _ \<Rightarrow>
          if \<not> is_alpha c then None
          else (case dropWhile is_scheme_char s of
                  [] \<Rightarrow> None
                | d # rest \<Rightarrow>
                    if d = CHR '':'' then Some (toLowerCase (takeWhile is_scheme_char s), rest)
                    else None))"

definition hex_digit :: "nat \<Rightarrow> char" where
  "hex_digit d = ''0123456789ABCDEF'' ! d"

text \<open>The query percent-encode set: C0 controls, space, \<open>"\<close>, \<open>#\<close>, \<open><\<close>, \<open>>\<close> and
  everything above \<open>~\<close>.\<close>

definition in_query_set :: "char \<Rightarrow> bool" where
  "in_query_set c =
     (in_range 0x00 0x20 c \<or> c = CHR 0x22 \<or> c = CHR 0x23 \<or> c = CHR 0x3C \<or> c = CHR 0x3E
      \<or> in_range 0x7F 0xFF c)"

definition query_encode :: "string \<Rightarrow> string" where
  "query_encode s =
     concat (map (\<lambda>c. if in_query_set c
                       then [CHR ''%'', hex_digit (of_char c div 16), hex_digit (of_char c mod 16)]
                       else [c]) s)"

definition url_query :: "string \<Rightarrow> string option" where
  "url_query rest =
     (case dropWhile (\<lambda>c. c \<noteq> CHR ''?'' \<and> c \<noteq> CHR ''#'') rest of
        [] \<Rightarrow> None
      | c # q \<Rightarrow>
          if c = CHR ''?'' then Some (query_encode (takeWhile (\<lambda>c. c \<noteq> CHR ''#'') q))
          else None)"

definition URL_search :: "string \<Rightarrow> string option" where
  "URL_search s =
     (case url_scheme (url_preprocess s) of
        None \<Rightarrow> None
      | Some (scheme, rest) \<Rightarrow>
          (case url_query rest of
             None \<Rightarrow> Some []
           | Some q \<Rightarrow> Some (if q = [] then [] else CHR ''?'' # q)))"

text \<open>
  \<open>new URLSearchParams(init)\<close> for a string: a leading \<open>?\<close> is dropped, the rest is split
  at \<open>&\<close>, empty pieces are skipped, each piece is split at its first \<open>=\<close>, and in name and
  value \<open>+\<close> becomes a space before percent-decoding and UTF-8 decoding.
\<close>

definition form_decode :: "string \<Rightarrow> string" where
  "form_decode x =
     utf8_decode (percent_decode (map (\<lambda>c. if c = CHR ''+'' then CHR 0x20 else c) x))"

definition form_pair :: "string \<Rightarrow> string \<times> string" where
  "form_pair bytes =
     (form_decode (takeWhile (\<lambda>c. c \<noteq> CHR ''='') bytes),
      form_decode (drop 1 (dropWhile (\<lambda>c. c \<noteq> CHR ''='') bytes)))"

definition URLSearchParams :: "string \<Rightarrow> (string \<times> string) list" where
  "URLSearchParams init =
     map form_pair
       (filter (\<lambda>bytes. bytes \<noteq> [])
          (split_on (CHR ''&'') (if prefix ''?'' init then drop 1 init else init)))"

text \<open>\<open>params.get(k)\<close> is the first value under \<open>k\<close> or \<open>null\<close>; \<open>params.getAll(k)\<close> is
  every value under \<open>k\<close>, in order.\<close>

definition params_get :: "(string \<times> string) list \<Rightarrow> string \<Rightarrow> string option" where
  "params_get params k = map_of params k"

definition params_getAll :: "(string \<times> string) list \<Rightarrow> string \<Rightarrow> string list" where
  "params_getAll params k = map snd (filter (\<lambda>p. fst p = k) params)"

section \<open>The local decoders\<close>

text \<open>
  What both decoders return. \<open>hash\<close> is \<open>None\<close> when JavaScript has \<open>undefined\<close> there
  (the structured decoder without an \<open>xt\<close> parameter); \<open>size'\<close> is \<open>None\<close> for \<open>null\<close>.
\<close>

record local_result =
  hash :: "string option"
  name :: string
  trackers :: "string list"
  size' :: "number option"

text \<open>The default name, four Chinese characters meaning "unknown resource".\<close>

definition unknown_resource :: string where
  "unknown_resource =
     [CHR 0xE6, CHR 0x9C, CHR 0xAA, CHR 0xE7, CHR 0x9F, CHR 0xA5,
      CHR 0xE8, CHR 0xB5, CHR 0x84, CHR 0xE6, CHR 0xBA, CHR 0x90]"

text \<open>
  \<open>parseLocalMagnet\<close>. The first argument says whether the runtime has \<open>URL\<close> and
  \<open>URLSearchParams\<close>. Every exception inside (the missing API, \<open>new URL\<close>,
  \<open>decodeURIComponent\<close>) is caught and turned into \<open>null\<close>, here \<open>None\<close>.
\<close>

definition parseLocalMagnet :: "bool \<Rightarrow> string \<Rightarrow> local_result option" where
  "parseLocalMagnet url_api magnetURI =
     (if \<not> url_api then None
      else case URL_search magnetURI of
        None \<Rightarrow> None
      | Some search \<Rightarrow>
          let params = URLSearchParams search;
              xt = params_get params ''xt'';
              dn = params_get params ''dn'';
              tr = params_getAll params ''tr'';
              xl = params_get params ''xl''
          in case (case dn of
                     None \<Rightarrow> Some unknown_resource
                   | Some d \<Rightarrow> if d \<noteq> [] then decodeURIComponent d else Some unknown_resource) of
               None \<Rightarrow> None
             | Some nm \<Rightarrow>
                 Some \<lparr>hash = map_option (replace_first ''urn:btih:'' []) xt,
                       name = nm,
                       trackers = tr,
                       size' = (case xl of
                                  None \<Rightarrow> None
                                | Some x \<Rightarrow> if x \<noteq> [] then Some (parseInt x) else None)\<rparr>)"

text \<open>The \<open>switch\<close> on the key inside the loop of \<open>parseLocalMagnetManual\<close>: what one
  decoded parameter does to the result.\<close>

definition manual_case :: "string \<Rightarrow> string \<Rightarrow> local_result \<Rightarrow> local_result" where
  "manual_case key decodedValue result =
     (if key = ''xt'' then
        (if startsWith decodedValue ''urn:btih:''
         then result\<lparr>hash := Some (substring 9 decodedValue)\<rparr>
         else result)
      else if key = ''dn'' then result\<lparr>name := decodedValue\<rparr>
      else if key = ''tr'' then result\<lparr>trackers := trackers result @ [decodedValue]\<rparr>
      else if key = ''xl'' then
        (case parseInt decodedValue of
           NaN \<Rightarrow> result
         | Fin n \<Rightarrow> result\<lparr>size' := Some (Fin n)\<rparr>)
      else result)"

text \<open>
  The loop over the pairs. \<open>pair.split('=', 2)\<close> keeps the first two pieces of the split
  at every \<open>=\<close>; a pair without a second piece, or with an empty one, is skipped. \<open>None\<close> is
  an exception of \<open>decodeURIComponent\<close>, which ends the function.
\<close>

fun manual_pairs :: "string list \<Rightarrow> local_result \<Rightarrow> local_result option" where
  "manual_pairs [] result = Some result"
| "manual_pairs (pair # pairs) result =
     (case take 2 (split_on (CHR ''='') pair) of
        [key, value] \<Rightarrow>
          if value = [] then manual_pairs pairs result
          else (case decodeURIComponent value of
                  None \<Rightarrow> None
                | Some decodedValue \<Rightarrow> manual_pairs pairs (manual_case key decodedValue result))
      | _ \<Rightarrow> manual_pairs pairs result)"

definition parseLocalMagnetManual :: "string \<Rightarrow> local_result option" where
  "parseLocalMagnetManual magnetURI =
     (if \<not> startsWith magnetURI ''magnet:?'' then None
      else let params = substring 8 magnetURI;
               pairs = split_on (CHR ''&'') params
           in case manual_pairs pairs
                     \<lparr>hash = Some [], name = unknown_resource, trackers = [], size' = None\<rparr> of
                None \<Rightarrow> None
              | Some result \<Rightarrow>
                  if hash result \<noteq> None \<and> hash result \<noteq> Some [] then Some result else None)"

section \<open>Values of the remote response\<close>

text \<open>
  The body the HTTP client returns is untyped: it is modelled as a JSON value, with
  \<open>Undefined\<close> for what a missing property reads as. Numbers are the integers (see above).
  An object is its list of members, read by \<open>map_of\<close>.
\<close>

datatype jsval =
    Undefined
  | Null
  | Bool bool
  | Num int
  | Str string
  | Arr "jsval list"
  | Obj "(string \<times> jsval) list"

fun truthy :: "jsval \<Rightarrow> bool" where
  "truthy Undefined = False"
| "truthy Null = False"
| "truthy (Bool b) = b"
| "truthy (Num n) = (n \<noteq> 0)"
| "truthy (Str s) = (s \<noteq> [])"
| "truthy (Arr xs) = True"
| "truthy (Obj kvs) = True"

text \<open>\<open>v.k\<close> for one of the property names the plugin reads (\<open>error\<close>, \<open>message\<close>, \<open>name\<close>,
  \<open>size\<close>, \<open>count\<close>, \<open>file_type\<close>, \<open>screenshots\<close>, \<open>screenshot\<close>): only an object can have
  them. The plugin reads a property only of a value it has found truthy.\<close>

fun get_prop :: "jsval \<Rightarrow> string \<Rightarrow> jsval" where
  "get_prop (Obj kvs) k = (case map_of kvs k of None \<Rightarrow> Undefined | Some v \<Rightarrow> v)"
| "get_prop _ k = Undefined"

definition js_or :: "jsval \<Rightarrow> jsval \<Rightarrow> jsval" where
  "js_or a b = (if truthy a then a else b)"

fun join_comma :: "string list \<Rightarrow> string" where
  "join_comma [] = []"
| "join_comma [s] = s"
| "join_comma (s # t # ss) = s @ '','' @ join_comma (t # ss)"

text \<open>The text a template literal puts for a value.\<close>

fun to_string :: "jsval \<Rightarrow> string" where
  "to_string Undefined = ''undefined''"
| "to_string Null = ''null''"
| "to_string (Bool b) = (if b then ''true'' else ''false'')"
| "to_string (Num n) = int_to_string n"
| "to_string (Str s) = s"
| "to_string (Arr xs) =
     join_comma (map (\<lambda>x. if x = Undefined \<or> x = Null then [] else to_string x) xs)"
| "to_string (Obj kvs) = ''[object Object]''"

text \<open>
  The number a string converts to, for the integer literals: surrounding white space is
  dropped, the empty string is 0, then come an optionally signed run of decimal digits or
  an unsigned \<open>0x\<close>, \<open>0o\<close> or \<open>0b\<close> literal. Every other string is \<open>NaN\<close> here; those with a
  fraction, an exponent or \<open>Infinity\<close> have values outside the model's numbers.
\<close>

fun trim_end :: "string \<Rightarrow> string" where
  "trim_end [] = []"
| "trim_end (c # cs) = (if trim_start (c # cs) = [] then [] else c # trim_end cs)"

definition all_digits :: "nat \<Rightarrow> string \<Rightarrow> bool" where
  "all_digits radix s = (s \<noteq> [] \<and> list_all (\<lambda>c. digit_val radix c \<noteq> None) s)"

definition string_to_number :: "string \<Rightarrow> number" where
  "string_to_number input =
     (let s = trim_end (trim_start input)
      in if s = [] then Fin 0
         else if prefix ''0x'' s \<or> prefix ''0X'' s then
           (if all_digits 16 (drop 2 s) then Fin (int (digits_value 16 0 (drop 2 s))) else NaN)
         else if prefix ''0o'' s \<or> prefix ''0O'' s then
           (if all_digits 8 (drop 2 s) then Fin (int (digits_value 8 0 (drop 2 s))) else NaN)
         else if prefix ''0b'' s \<or> prefix ''0B'' s then
           (if all_digits 2 (drop 2 s) then Fin (int (digits_value 2 0 (drop 2 s))) else NaN)
         else if prefix ''-'' s then
           (if all_digits 10 (drop 1 s) then Fin (- int (digits_value 10 0 (drop 1 s))) else NaN)
         else if prefix ''+'' s then
           (if all_digits 10 (drop 1 s) then Fin (int (digits_value 10 0 (drop 1 s))) else NaN)
         else if all_digits 10 s then Fin (int (digits_value 10 0 s))
         else NaN)"

fun to_number :: "jsval \<Rightarrow> number" where
  "to_number Undefined = NaN"
| "to_number Null = Fin 0"
| "to_number (Bool b) = Fin (if b then 1 else 0)"
| "to_number (Num n) = Fin n"
| "to_number (Str s) = string_to_number s"
| "to_number (Arr xs) = string_to_number (to_string (Arr xs))"
| "to_number (Obj kvs) = NaN"

section \<open>Messages\<close>

text \<open>
  The elements the plugin builds with \<open>h\<close>: a text node, an image from a buffer with its
  media type, a quote of a message id, and the two containers, \<open>message\<close> and \<open>figure\<close>
  (the forwarded bundle).
\<close>

datatype h =
    Text string
  | Image string string
  | Quote string
  | Message "h list"
  | Figure "h list"

record config =
  apiEndpoint :: string
  timeout :: int
  useForward :: bool
  showScreenshot :: bool
  debugMode :: bool
  sendSeparately :: bool
  customUserAgent :: string
  useLocalParsing :: bool

record session =
  content :: string
  messageId :: string
  channelId :: string
  platform :: string

text \<open>
  What one run of the middleware reads from outside: the clock, whether the runtime has
  the URL API, the outcome of the lookup request (a transport failure or the body), the
  outcome of each image download, and the ids \<open>session.send\<close> returns for the placeholder.
  Sending is taken to succeed. Logging is left out: it decides nothing.
\<close>

datatype http_result = Failed | Response jsval

record world =
  now :: int
  url_api :: bool
  api_response :: http_result
  image_get :: "string \<Rightarrow> string option"
  send_ids :: "string list"

text \<open>
  What a run does, in order: messages sent, the handing over to the next middleware, the
  two kinds of HTTP request, the deletion of the placeholder, and the calls of the
  decoders and of the formatter.
\<close>

datatype fn = ParseLocalMagnet | ParseLocalMagnetManual | FormatApiResponse

datatype effect =
    Send h
  | Next
  | ApiGet string string int string
  | ImageGet string
  | DeleteMessage string string
  | Called fn

text \<open>The messages among the effects, in the order they were sent.\<close>

fun sent :: "effect list \<Rightarrow> h list" where
  "sent [] = []"
| "sent (Send m # es) = m # sent es"
| "sent (e # es) = sent es"

definition quoted :: "session \<Rightarrow> string \<Rightarrow> h" where
  "quoted session t = Message [Quote (messageId session), Text t]"

section \<open>The magnet extractor\<close>

text \<open>
  \<open>text.match(/(magnet:\?[^\s]+)/gi)?.[0]\<close>: the leftmost place where \<open>magnet:?\<close>, in any
  letter case, is followed by at least one character that is not white space; the match
  runs on to the next white space.
\<close>

fun take_non_ws :: "string \<Rightarrow> string" where
  "take_non_ws [] = []"
| "take_non_ws (c # cs) = (if ws_len (c # cs) \<noteq> 0 then [] else c # take_non_ws cs)"

fun match_magnet :: "string \<Rightarrow> string option" where
  "match_magnet [] = None"
| "match_magnet (c # cs) =
     (if toLowerCase (take 8 (c # cs)) = ''magnet:?'' \<and> take_non_ws (drop 8 (c # cs)) \<noteq> []
      then Some (take 8 (c # cs) @ take_non_ws (drop 8 (c # cs)))
      else match_magnet cs)"

section \<open>The reduced-form reply\<close>

text \<open>The word for an unknown size, two Chinese characters.\<close>

definition unknown_size :: string where
  "unknown_size = [CHR 0xE6, CHR 0x9C, CHR 0xAA, CHR 0xE7, CHR 0x9F, CHR 0xA5]"

text \<open>The two banners: "API quota limit, using local parsing" after a quota error and
  "API parsing failed, using local parsing" in the \<open>catch\<close> block.\<close>

definition quota_banner :: string where
  "quota_banner =
     [CHR 0xE2, CHR 0x9A, CHR 0xA0, CHR 0xEF, CHR 0xB8,
     CHR 0x8F] @ '' API '' @ [CHR 0xE9, CHR 0x85, CHR 0x8D, CHR 0xE9, CHR 0xA2, CHR 0x9D,
     CHR 0xE9, CHR 0x99, CHR 0x90, CHR 0xE5, CHR 0x88, CHR 0xB6, CHR 0xEF, CHR 0xBC,
     CHR 0x8C, CHR 0xE4, CHR 0xBD, CHR 0xBF, CHR 0xE7, CHR 0x94, CHR 0xA8, CHR 0xE6,
     CHR 0x9C, CHR 0xAC, CHR 0xE5, CHR 0x9C, CHR 0xB0, CHR 0xE8, CHR 0xA7, CHR 0xA3,
     CHR 0xE6, CHR 0x9E, CHR 0x90]"

definition failure_banner :: string where
  "failure_banner =
     [CHR 0xE2, CHR 0x9A, CHR 0xA0, CHR 0xEF, CHR 0xB8,
     CHR 0x8F] @ '' API '' @ [CHR 0xE8, CHR 0xA7, CHR 0xA3, CHR 0xE6, CHR 0x9E, CHR 0x90,
     CHR 0xE5, CHR 0xA4, CHR 0xB1, CHR 0xE8, CHR 0xB4, CHR 0xA5, CHR 0xEF, CHR 0xBC,
     CHR 0x8C, CHR 0xE4, CHR 0xBD, CHR 0xBF, CHR 0xE7, CHR 0x94, CHR 0xA8, CHR 0xE6,
     CHR 0x9C, CHR 0xAC, CHR 0xE5, CHR 0x9C, CHR 0xB0, CHR 0xE8, CHR 0xA7, CHR 0xA3,
     CHR 0xE6, CHR 0x9E, CHR 0x90]"

text \<open>The fixed pieces of the reduced-form reply: the heading "Magnet link information"
  with the label of the name, the labels of the hash, of the size and of the number of
  trackers, and the two closing hints ("this magnet link is incomplete, it only has the
  hash" and "local parsing gives basic information only").\<close>

definition heading_label :: string where
  "heading_label =
     [CHR 0x0A, CHR 0x0A, CHR 0xF0, CHR 0x9F, CHR 0xA7,
     CHR 0xB2] @ '' Magnet '' @ [CHR 0xE9, CHR 0x93, CHR 0xBE, CHR 0xE6, CHR 0x8E,
     CHR 0xA5, CHR 0xE4, CHR 0xBF, CHR 0xA1, CHR 0xE6, CHR 0x81, CHR 0xAF, CHR 0x0A,
     CHR 0xF0, CHR 0x9F, CHR 0x93, CHR 0x9D] @ '' '' @ [CHR 0xE5, CHR 0x90, CHR 0x8D,
     CHR 0xE7, CHR 0xA7, CHR 0xB0] @ '': ''"

definition hash_label :: string where
  "hash_label = [CHR 0x0A, CHR 0xF0, CHR 0x9F, CHR 0x94, CHR 0x97] @ '' '' @ [CHR 0xE5, CHR 0x93,
     CHR 0x88, CHR 0xE5, CHR 0xB8, CHR 0x8C] @ '': ''"

definition size_label :: string where
  "size_label = [CHR 0x0A, CHR 0xF0, CHR 0x9F, CHR 0x92, CHR 0xBE] @ '' '' @ [CHR 0xE5, CHR 0xA4,
     CHR 0xA7, CHR 0xE5, CHR 0xB0, CHR 0x8F] @ '': ''"

definition trackers_label :: string where
  "trackers_label =
     [CHR 0x0A, CHR 0xF0, CHR 0x9F, CHR 0x93, CHR 0xA1] @ '' Tracker '' @ [CHR 0xE6,
     CHR 0x95, CHR 0xB0, CHR 0xE9, CHR 0x87, CHR 0x8F] @ '': ''"

definition incomplete_hint :: string where
  "incomplete_hint =
     [CHR 0x0A, CHR 0x0A, CHR 0xE2, CHR 0x9A, CHR 0xA0, CHR 0xEF, CHR 0xB8,
     CHR 0x8F] @ '' '' @ [CHR 0xE6, CHR 0xAD, CHR 0xA4] @ '' magnet '' @ [CHR 0xE9,
     CHR 0x93, CHR 0xBE, CHR 0xE6, CHR 0x8E, CHR 0xA5, CHR 0xE4, CHR 0xBF, CHR 0xA1,
     CHR 0xE6, CHR 0x81, CHR 0xAF, CHR 0xE4, CHR 0xB8, CHR 0x8D, CHR 0xE5, CHR 0xAE,
     CHR 0x8C, CHR 0xE6, CHR 0x95, CHR 0xB4, CHR 0xEF, CHR 0xBC, CHR 0x8C, CHR 0xE4,
     CHR 0xBB, CHR 0x85, CHR 0xE5, CHR 0x8C, CHR 0x85, CHR 0xE5, CHR 0x90, CHR 0xAB,
     CHR 0xE5, CHR 0x93, CHR 0x88, CHR 0xE5, CHR 0xB8, CHR 0x8C, CHR 0xE5, CHR 0x80,
     CHR 0xBC, CHR 0x0A, CHR 0xF0, CHR 0x9F, CHR 0x92, CHR 0xA1] @ '' '' @ [CHR 0xE5,
     CHR 0xBB, CHR 0xBA, CHR 0xE8, CHR 0xAE, CHR 0xAE, CHR 0xEF, CHR 0xBC, CHR 0x9A,
     CHR 0xE5, CHR 0xB0, CHR 0x9D, CHR 0xE8, CHR 0xAF, CHR 0x95, CHR 0xE4, CHR 0xBB,
     CHR 0x8E, CHR 0xE5, CHR 0x8E, CHR 0x9F, CHR 0xE5, CHR 0xA7, CHR 0x8B, CHR 0xE6,
     CHR 0x9D, CHR 0xA5, CHR 0xE6, CHR 0xBA, CHR 0x90, CHR 0xE8, CHR 0x8E, CHR 0xB7,
     CHR 0xE5, CHR 0x8F, CHR 0x96, CHR 0xE5, CHR 0xAE, CHR 0x8C, CHR 0xE6, CHR 0x95,
     CHR 0xB4, CHR 0xE7, CHR 0x9A, CHR 0x84] @ '' magnet '' @ [CHR 0xE9, CHR 0x93,
     CHR 0xBE, CHR 0xE6, CHR 0x8E, CHR 0xA5]"

definition basic_hint :: string where
  "basic_hint =
     [CHR 0x0A, CHR 0x0A, CHR 0xF0, CHR 0x9F, CHR 0x92, CHR 0xA1] @ '' '' @ [CHR 0xE6,
     CHR 0xB3, CHR 0xA8, CHR 0xE6, CHR 0x84, CHR 0x8F, CHR 0xEF, CHR 0xBC, CHR 0x9A,
     CHR 0xE6, CHR 0x9C, CHR 0xAC, CHR 0xE5, CHR 0x9C, CHR 0xB0, CHR 0xE8, CHR 0xA7,
     CHR 0xA3, CHR 0xE6, CHR 0x9E, CHR 0x90, CHR 0xE4, CHR 0xBB, CHR 0x85, CHR 0xE6,
     CHR 0x8F, CHR 0x90, CHR 0xE4, CHR 0xBE, CHR 0x9B, CHR 0xE5, CHR 0x9F, CHR 0xBA,
     CHR 0xE6, CHR 0x9C, CHR 0xAC, CHR 0xE4, CHR 0xBF, CHR 0xA1, CHR 0xE6, CHR 0x81,
     CHR 0xAF, CHR 0xEF, CHR 0xBC, CHR 0x8C, CHR 0xE6, CHR 0x97, CHR 0xA0, CHR 0xE6,
     CHR 0x88, CHR 0xAA, CHR 0xE5, CHR 0x9B, CHR 0xBE, CHR 0xE5, CHR 0x92, CHR 0x8C,
     CHR 0xE8, CHR 0xAF, CHR 0xA6, CHR 0xE7, CHR 0xBB, CHR 0x86, CHR 0xE6, CHR 0x96,
     CHR 0x87, CHR 0xE4, CHR 0xBB, CHR 0xB6, CHR 0xE5, CHR 0x88, CHR 0x97, CHR 0xE8,
     CHR 0xA1, CHR 0xA8]"

text \<open>\<open>localResult.size ? formatBytes(localResult.size) : unknown\<close>: \<open>null\<close>, \<open>NaN\<close> and 0
  are falsy.\<close>

definition sizeText :: "local_result \<Rightarrow> string" where
  "sizeText localResult =
     (case size' localResult of
        Some (Fin n) \<Rightarrow> if n \<noteq> 0 then formatBytes (Fin n) else unknown_size
      | _ \<Rightarrow> unknown_size)"

definition hasUsefulInfo :: "local_result \<Rightarrow> bool" where
  "hasUsefulInfo localResult =
     (name localResult \<noteq> unknown_resource \<or> size' localResult \<noteq> None
      \<or> 0 < length (trackers localResult))"

text \<open>The text of the reduced-form reply.\<close>

definition local_message :: "string \<Rightarrow> local_result \<Rightarrow> string" where
  "local_message banner localResult =
     (let message = banner @ heading_label @ name localResult
            @ hash_label @ (case hash localResult of None \<Rightarrow> ''undefined'' | Some x \<Rightarrow> x)
            @ size_label @ sizeText localResult
            @ trackers_label @ dec (length (trackers localResult))
      in if \<not> hasUsefulInfo localResult then message @ incomplete_hint
         else message @ basic_hint)"

text \<open>"Parsing failed, local parsing cannot handle this link either."\<close>

definition local_failed_notice :: string where
  "local_failed_notice =
     [CHR 0xE8, CHR 0xA7, CHR 0xA3, CHR 0xE6, CHR 0x9E, CHR 0x90, CHR 0xE5, CHR 0xA4,
     CHR 0xB1, CHR 0xE8, CHR 0xB4, CHR 0xA5, CHR 0xEF, CHR 0xBC, CHR 0x8C, CHR 0xE6,
     CHR 0x9C, CHR 0xAC, CHR 0xE5, CHR 0x9C, CHR 0xB0, CHR 0xE8, CHR 0xA7, CHR 0xA3,
     CHR 0xE6, CHR 0x9E, CHR 0x90, CHR 0xE4, CHR 0xB9, CHR 0x9F, CHR 0xE6, CHR 0x97,
     CHR 0xA0, CHR 0xE6, CHR 0xB3, CHR 0x95, CHR 0xE5, CHR 0xA4, CHR 0x84, CHR 0xE7,
     CHR 0x90, CHR 0x86, CHR 0xE6, CHR 0xAD, CHR 0xA4, CHR 0xE9, CHR 0x93, CHR 0xBE,
     CHR 0xE6, CHR 0x8E, CHR 0xA5, CHR 0xE3, CHR 0x80, CHR 0x82]"

text \<open>\<open>parseLocalMagnet\<close>, then \<open>parseLocalMagnetManual\<close> if the first returned \<open>null\<close>; with the
  calls made.\<close>

definition local_decode :: "world \<Rightarrow> string \<Rightarrow> fn list \<times> local_result option" where
  "local_decode w magnetURI =
     (case parseLocalMagnet (url_api w) magnetURI of
        None \<Rightarrow> ([ParseLocalMagnet, ParseLocalMagnetManual], parseLocalMagnetManual magnetURI)
      | Some localResult \<Rightarrow> ([ParseLocalMagnet], Some localResult))"

definition usable :: "local_result option \<Rightarrow> bool" where
  "usable localResult =
     (case localResult of
        None \<Rightarrow> False
      | Some r \<Rightarrow> hash r \<noteq> None \<and> hash r \<noteq> Some [])"

text \<open>
  The local fallback. The source writes it out twice, after a quota error and in the
  \<open>catch\<close> block, the two copies differing in the banner only.
\<close>

definition local_fallback :: "string \<Rightarrow> world \<Rightarrow> session \<Rightarrow> string \<Rightarrow> effect list" where
  "local_fallback banner w session magnetURI =
     (let (calls, localResult) = local_decode w magnetURI
      in map Called calls @
         [Send (quoted session
            (case localResult of
               None \<Rightarrow> local_failed_notice
             | Some r \<Rightarrow>
                 if usable localResult then local_message banner r else local_failed_notice))])"

section \<open>The remote-data formatter\<close>

definition fileTypeIcons :: "(string \<times> string) list" where
  "fileTypeIcons =
     [(''folder'', [CHR 0xF0, CHR 0x9F, CHR 0x93, CHR 0x81]),
      (''video'', [CHR 0xF0, CHR 0x9F, CHR 0x8E, CHR 0xAC]),
      (''audio'', [CHR 0xF0, CHR 0x9F, CHR 0x8E, CHR 0xB5]),
      (''archive'', [CHR 0xF0, CHR 0x9F, CHR 0x93, CHR 0xA6]),
      (''image'', [CHR 0xF0, CHR 0x9F, CHR 0x96, CHR 0xBC, CHR 0xEF, CHR 0xB8, CHR 0x8F]),
      (''document'', [CHR 0xF0, CHR 0x9F, CHR 0x93, CHR 0x84]),
      (''text'', [CHR 0xF0, CHR 0x9F, CHR 0x93, CHR 0x9D]),
      (''font'', [CHR 0xF0, CHR 0x9F, CHR 0x94, CHR 0xA0]),
      (''unknown'', [CHR 0xE2, CHR 0x9D, CHR 0x93])]"

definition default_icon :: string where
  "default_icon = [CHR 0xE2, CHR 0x9D, CHR 0x93]"

text \<open>The text block: "parsed successfully", a rule, the content type with its icon if
  the response has one, the resource name, the total size, the file count and, with
  screenshots, the line announcing them.\<close>

definition hasScreenshots :: "config \<Rightarrow> jsval \<Rightarrow> bool" where
  "hasScreenshots config data =
     (showScreenshot config \<and>
      (case get_prop data ''screenshots'' of Arr items \<Rightarrow> 0 < length items | _ \<Rightarrow> False))"

definition success_heading :: string where
  "success_heading =
     [CHR 0xE2, CHR 0x9C, CHR 0x85] @ '' '' @ [CHR 0xE8, CHR 0xA7, CHR 0xA3, CHR 0xE6,
     CHR 0x9E, CHR 0x90, CHR 0xE6, CHR 0x88, CHR 0x90, CHR 0xE5, CHR 0x8A, CHR 0x9F,
     CHR 0x0A]
     @ ''--------------------------'' @ [CHR 0x0A]"

definition type_label :: string where
  "type_label = '' '' @ [CHR 0xE5, CHR 0x86, CHR 0x85, CHR 0xE5, CHR 0xAE, CHR 0xB9, CHR 0xE7,
     CHR 0xB1, CHR 0xBB, CHR 0xE5, CHR 0x9E, CHR 0x8B] @ '': ''"

definition name_label :: string where
  "name_label = [CHR 0xF0, CHR 0x9F, CHR 0x93, CHR 0x9D] @ '' '' @ [CHR 0xE8, CHR 0xB5, CHR 0x84,
     CHR 0xE6, CHR 0xBA, CHR 0x90, CHR 0xE5, CHR 0x90, CHR 0x8D, CHR 0xE7, CHR 0xA7,
     CHR 0xB0] @ '': ''"

definition total_size_label :: string where
  "total_size_label = [CHR 0xF0, CHR 0x9F, CHR 0x92, CHR 0xBE] @ '' '' @ [CHR 0xE6, CHR 0x80, CHR 0xBB,
     CHR 0xE5, CHR 0xA4, CHR 0xA7, CHR 0xE5, CHR 0xB0, CHR 0x8F] @ '': ''"

definition count_label :: string where
  "count_label = [CHR 0xF0, CHR 0x9F, CHR 0xA7, CHR 0xA9] @ '' '' @ [CHR 0xE6, CHR 0x96, CHR 0x87,
     CHR 0xE4, CHR 0xBB, CHR 0xB6, CHR 0xE6, CHR 0x95, CHR 0xB0, CHR 0xE9, CHR 0x87,
     CHR 0x8F] @ '': ''"

definition preview_line :: string where
  "preview_line =
     ''--------------------------'' @ [CHR 0x0A, CHR 0xF0, CHR 0x9F, CHR 0x96, CHR 0xBC,
     CHR 0xEF, CHR 0xB8, CHR 0x8F] @ '' '' @ [CHR 0xE6, CHR 0x88, CHR 0xAA, CHR 0xE5,
     CHR 0x9B, CHR 0xBE, CHR 0xE9, CHR 0xA2, CHR 0x84, CHR 0xE8, CHR 0xA7,
     CHR 0x88] @ '':''"

definition textContent :: "config \<Rightarrow> jsval \<Rightarrow> string" where
  "textContent config data =
     success_heading
     @ (if truthy (get_prop data ''file_type'') then
          (case map_of fileTypeIcons (to_string (get_prop data ''file_type'')) of
             None \<Rightarrow> default_icon
           | Some icon \<Rightarrow> icon)
          @ type_label @ to_string (get_prop data ''file_type'') @ [CHR 0x0A]
        else [])
     @ name_label @ to_string (get_prop data ''name'') @ [CHR 0x0A]
     @ total_size_label @ formatBytes (to_number (get_prop data ''size'')) @ [CHR 0x0A]
     @ count_label @ to_string (get_prop data ''count'') @ [CHR 0x0A]
     @ (if hasScreenshots config data then preview_line else [])"

text \<open>The address of a screenshot entry: the \<open>screenshot\<close> member of an object, or the
  entry itself when it is a string, if it starts with \<open>http\<close>.\<close>

definition imageUrl :: "jsval \<Rightarrow> string option" where
  "imageUrl item =
     (case (if truthy item then get_prop item ''screenshot'' else Undefined) of
        Str u \<Rightarrow>
          if startsWith u ''http'' then Some u
          else (case item of
                  Str v \<Rightarrow> if startsWith v ''http'' then Some v else None
                | _ \<Rightarrow> None)
      | _ \<Rightarrow>
          (case item of
             Str v \<Rightarrow> if startsWith v ''http'' then Some v else None
           | _ \<Rightarrow> None))"

text \<open>The download loop: one request for each entry that has an address; a download that
  fails is logged and leaves no image.\<close>

fun fetch_images :: "world \<Rightarrow> jsval list \<Rightarrow> effect list \<times> h list" where
  "fetch_images w [] = ([], [])"
| "fetch_images w (item # items) =
     (let (effs, imgs) = fetch_images w items
      in case imageUrl item of
           None \<Rightarrow> (effs, imgs)
         | Some u \<Rightarrow>
             (case image_get w u of
                None \<Rightarrow> (ImageGet u # effs, imgs)
              | Some buffer \<Rightarrow> (ImageGet u # effs, Image buffer ''image/jpeg'' # imgs)))"

definition imageElements :: "config \<Rightarrow> world \<Rightarrow> jsval \<Rightarrow> effect list \<times> h list" where
  "imageElements config w data =
     (if hasScreenshots config data then
        (case get_prop data ''screenshots'' of
           Arr items \<Rightarrow> fetch_images w items
         | _ \<Rightarrow> ([], []))
      else ([], []))"

definition formatApiResponse ::
  "config \<Rightarrow> world \<Rightarrow> session \<Rightarrow> jsval \<Rightarrow> effect list \<times> h list" where
  "formatApiResponse config w session data =
     (let (effs, images) = imageElements config w data
      in if sendSeparately config then
           (effs, Message [Text (textContent config data)] # map (\<lambda>img. Message [img]) images)
         else
           (let children = Text (textContent config data) # images
            in if useForward config \<and> platform session \<in> set [''qq'', ''onebot'']
               then (effs, [Figure children])
               else (effs, [Message children])))"

section \<open>The middleware\<close>

definition minInterval :: int where
  "minInterval = 3000"

text \<open>"Requests too frequent, please wait n seconds and try again", with
  \<open>n = Math.ceil((minInterval - (now - lastRequestTime)) / 1000)\<close>.\<close>

definition wait_seconds :: "int \<Rightarrow> int \<Rightarrow> int" where
  "wait_seconds t lastRequestTime = - ((- (minInterval - (t - lastRequestTime))) div 1000)"

definition throttle_notice :: "int \<Rightarrow> string" where
  "throttle_notice n =
     [CHR 0xE8, CHR 0xAF, CHR 0xB7, CHR 0xE6, CHR 0xB1, CHR 0x82, CHR 0xE8, CHR 0xBF,
     CHR 0x87, CHR 0xE4, CHR 0xBA, CHR 0x8E, CHR 0xE9, CHR 0xA2, CHR 0x91, CHR 0xE7,
     CHR 0xB9, CHR 0x81, CHR 0xEF, CHR 0xBC, CHR 0x8C, CHR 0xE8, CHR 0xAF, CHR 0xB7,
     CHR 0xE7, CHR 0xAD, CHR 0x89, CHR 0xE5, CHR 0xBE, CHR 0x85] @ '' ''
     @ int_to_string n @
     '' '' @ [CHR 0xE7, CHR 0xA7, CHR 0x92, CHR 0xE5, CHR 0x90, CHR 0x8E, CHR 0xE5,
     CHR 0x86, CHR 0x8D, CHR 0xE8, CHR 0xAF, CHR 0x95]"

text \<open>"Resolving the link through whatslink.info, please wait..."\<close>

definition placeholder :: string where
  "placeholder =
     [CHR 0xE6, CHR 0xAD, CHR 0xA3, CHR 0xE5, CHR 0x9C, CHR 0xA8, CHR 0xE9, CHR 0x80,
     CHR 0x9A, CHR 0xE8, CHR 0xBF, CHR 0x87] @ '' whatslink.info '' @ [CHR 0xE8,
     CHR 0xA7, CHR 0xA3, CHR 0xE6, CHR 0x9E, CHR 0x90, CHR 0xE9, CHR 0x93, CHR 0xBE,
     CHR 0xE6, CHR 0x8E, CHR 0xA5, CHR 0xEF, CHR 0xBC, CHR 0x8C, CHR 0xE8, CHR 0xAF,
     CHR 0xB7, CHR 0xE7, CHR 0xA8, CHR 0x8D, CHR 0xE5, CHR 0x80, CHR 0x99] @ ''...''"

text \<open>"Parsing failed: " is the prefix of the notices that name a reason.\<close>

definition failed_prefix :: string where
  "failed_prefix = [CHR 0xE8, CHR 0xA7, CHR 0xA3, CHR 0xE6, CHR 0x9E, CHR 0x90, CHR 0xE5, CHR 0xA4,
     CHR 0xB1, CHR 0xE8, CHR 0xB4, CHR 0xA5, CHR 0xEF, CHR 0xBC, CHR 0x9A]"

text \<open>The notice for a quota error when local parsing is off: the reason and two
  suggestions.\<close>

definition quota_notice :: "string \<Rightarrow> string" where
  "quota_notice errorMsg =
     [CHR 0xE8, CHR 0xA7, CHR 0xA3, CHR 0xE6, CHR 0x9E, CHR 0x90, CHR 0xE5, CHR 0xA4,
     CHR 0xB1, CHR 0xE8, CHR 0xB4, CHR 0xA5, CHR 0xEF, CHR 0xBC,
     CHR 0x9A] @ ''API '' @ [CHR 0xE9, CHR 0x85, CHR 0x8D, CHR 0xE9, CHR 0xA2, CHR 0x9D,
     CHR 0xE9, CHR 0x99, CHR 0x90, CHR 0xE5, CHR 0x88, CHR 0xB6] @ '' - ''
     @ errorMsg @
     [CHR 0x0A, CHR 0x0A, CHR 0xE5, CHR 0x8F, CHR 0xAF, CHR 0xE8, CHR 0x83, CHR 0xBD,
     CHR 0xE5, CHR 0x8E, CHR 0x9F, CHR 0xE5, CHR 0x9B, CHR 0xA0, CHR 0xEF, CHR 0xBC,
     CHR 0x9A] @ ''whatslink.info '' @ [CHR 0xE5, CHR 0xAF, CHR 0xB9, CHR 0xE9, CHR 0x9D,
     CHR 0x9E, CHR 0xE5, CHR 0x85, CHR 0xAC, CHR 0xE5, CHR 0x85, CHR 0xB1, CHR 0xE7,
     CHR 0xBD, CHR 0x91, CHR 0xE7, CHR 0xAB, CHR 0x99, CHR 0xE6, CHR 0x9C, CHR 0x89,
     CHR 0xE9, CHR 0x85, CHR 0x8D, CHR 0xE9, CHR 0xA2, CHR 0x9D, CHR 0xE9, CHR 0x99,
     CHR 0x90, CHR 0xE5, CHR 0x88, CHR 0xB6, CHR 0xEF, CHR 0xBC, CHR 0x8C, CHR 0xE5,
     CHR 0xBB, CHR 0xBA, CHR 0xE8, CHR 0xAE, CHR 0xAE, CHR 0xEF, CHR 0xBC, CHR 0x9A,
     CHR 0x0A] @ ''1. '' @ [CHR 0xE9, CHR 0x99, CHR 0x8D, CHR 0xE4, CHR 0xBD, CHR 0x8E,
     CHR 0xE8, CHR 0xAF, CHR 0xB7, CHR 0xE6, CHR 0xB1, CHR 0x82, CHR 0xE9, CHR 0xA2,
     CHR 0x91, CHR 0xE7, CHR 0x8E, CHR 0x87, CHR 0x0A] @ ''2. '' @ [CHR 0xE8, CHR 0x80,
     CHR 0x83, CHR 0xE8, CHR 0x99, CHR 0x91, CHR 0xE8, CHR 0x81, CHR 0x94, CHR 0xE7,
     CHR 0xB3, CHR 0xBB] @ '' API '' @ [CHR 0xE6, CHR 0x8F, CHR 0x90, CHR 0xE4, CHR 0xBE,
     CHR 0x9B, CHR 0xE5, CHR 0x95, CHR 0x86, CHR 0xE7, CHR 0x94, CHR 0xB3, CHR 0xE8,
     CHR 0xAF, CHR 0xB7, CHR 0xE6, CHR 0x9B, CHR 0xB4, CHR 0xE9, CHR 0xAB, CHR 0x98,
     CHR 0xE9, CHR 0x85, CHR 0x8D, CHR 0xE9, CHR 0xA2, CHR 0x9D]"

text \<open>"Parsing failed: the API returned incomplete data."\<close>

definition incomplete_notice :: string where
  "incomplete_notice =
     [CHR 0xE8, CHR 0xA7, CHR 0xA3, CHR 0xE6, CHR 0x9E, CHR 0x90, CHR 0xE5, CHR 0xA4,
     CHR 0xB1, CHR 0xE8, CHR 0xB4, CHR 0xA5, CHR 0xEF, CHR 0xBC,
     CHR 0x9A] @ ''API '' @ [CHR 0xE8, CHR 0xBF, CHR 0x94, CHR 0xE5, CHR 0x9B, CHR 0x9E,
     CHR 0xE6, CHR 0x95, CHR 0xB0, CHR 0xE6, CHR 0x8D, CHR 0xAE, CHR 0xE4, CHR 0xB8,
     CHR 0x8D, CHR 0xE5, CHR 0xAE, CHR 0x8C, CHR 0xE6, CHR 0x95, CHR 0xB4]"

text \<open>"Parsing failed, perhaps a network problem or the API is temporarily unavailable."\<close>

definition unavailable_notice :: string where
  "unavailable_notice =
     [CHR 0xE8, CHR 0xA7, CHR 0xA3, CHR 0xE6, CHR 0x9E, CHR 0x90, CHR 0xE5, CHR 0xA4,
     CHR 0xB1, CHR 0xE8, CHR 0xB4, CHR 0xA5, CHR 0xEF, CHR 0xBC, CHR 0x8C, CHR 0xE5,
     CHR 0x8F, CHR 0xAF, CHR 0xE8, CHR 0x83, CHR 0xBD, CHR 0xE6, CHR 0x98, CHR 0xAF,
     CHR 0xE7, CHR 0xBD, CHR 0x91, CHR 0xE7, CHR 0xBB, CHR 0x9C, CHR 0xE9, CHR 0x97,
     CHR 0xAE, CHR 0xE9, CHR 0xA2, CHR 0x98, CHR 0xE6, CHR 0x88,
     CHR 0x96] @ '' API '' @ [CHR 0xE6, CHR 0x9A, CHR 0x82, CHR 0xE6, CHR 0x97, CHR 0xB6,
     CHR 0xE4, CHR 0xB8, CHR 0x8D, CHR 0xE5, CHR 0x8F, CHR 0xAF, CHR 0xE7, CHR 0x94,
     CHR 0xA8, CHR 0xE3, CHR 0x80, CHR 0x82]"

definition is_quota_text :: "string \<Rightarrow> bool" where
  "is_quota_text errorMsg =
     (str_includes (toLowerCase errorMsg) ''quota''
      \<or> str_includes (toLowerCase errorMsg) ''limit''
      \<or> str_includes (toLowerCase errorMsg) ''frequent''
      \<or> str_includes (toLowerCase errorMsg) ''rate'')"

text \<open>How the \<open>try\<close> block starts: the placeholder is sent and the lookup requested.\<close>

definition started :: "config \<Rightarrow> session \<Rightarrow> string \<Rightarrow> effect list" where
  "started config session magnetURI =
     [Send (quoted session placeholder),
      ApiGet (apiEndpoint config) magnetURI (timeout config) (customUserAgent config)]"

text \<open>
  The \<open>try\<close> block, from the placeholder on, with the effects it has and whether an
  exception left it: the lookup failed, the body is empty (\<open>throw new Error\<close>), or the
  reported error is not a string, so that \<open>errorMsg.toLowerCase\<close> is not a function.
\<close>

definition try_block :: "config \<Rightarrow> world \<Rightarrow> session \<Rightarrow> string \<Rightarrow> effect list \<times> bool" where
  "try_block config w session magnetURI =
     (let pre = started config session magnetURI
      in case api_response w of
        Failed \<Rightarrow> (pre, True)
      | Response apiResponse \<Rightarrow>
          if \<not> truthy apiResponse then (pre, True)
          else if truthy (get_prop apiResponse ''error'') \<or> truthy (get_prop apiResponse ''message'')
          then
            (case js_or (get_prop apiResponse ''error'') (get_prop apiResponse ''message'') of
               Str errorMsg \<Rightarrow>
                 if is_quota_text errorMsg then
                   (if useLocalParsing config
                    then (pre @ local_fallback quota_banner w session magnetURI, False)
                    else (pre @ [Send (quoted session (quota_notice errorMsg))], False))
                 else (pre @ [Send (quoted session (failed_prefix @ errorMsg))], False)
             | _ \<Rightarrow> (pre, True))
          else if \<not> truthy (get_prop apiResponse ''name'') \<or> \<not> truthy (get_prop apiResponse ''size'')
          then (pre @ [Send (quoted session incomplete_notice)], False)
          else if (case get_prop apiResponse ''name'' of
                     Str n \<Rightarrow> str_includes (toLowerCase n) ''frequent''
                   | _ \<Rightarrow> False)
          then (pre @ [Send (quoted session
                  (failed_prefix @ to_string (get_prop apiResponse ''name'')))], False)
          else
            (let (effs, messagesToSend) = formatApiResponse config w session apiResponse
             in (pre @ [Called FormatApiResponse] @ effs @ map Send messagesToSend, False)))"

definition catch_block :: "config \<Rightarrow> world \<Rightarrow> session \<Rightarrow> string \<Rightarrow> effect list" where
  "catch_block config w session magnetURI =
     (if useLocalParsing config then local_fallback failure_banner w session magnetURI
      else [Send (quoted session unavailable_notice)])"

definition finally_block :: "world \<Rightarrow> session \<Rightarrow> effect list" where
  "finally_block w session =
     (case send_ids w of [] \<Rightarrow> [] | first # _ \<Rightarrow> [DeleteMessage (channelId session) first])"

text \<open>
  One run of the middleware on a message: the effects and the new \<open>lastRequestTime\<close>.
\<close>

definition middleware :: "config \<Rightarrow> world \<Rightarrow> session \<Rightarrow> int \<Rightarrow> effect list \<times> int" where
  "middleware config w session lastRequestTime =
     (case match_magnet (content session) of
        None \<Rightarrow> ([Next], lastRequestTime)
      | Some magnetURI \<Rightarrow>
          if \<not> str_includes magnetURI ''xt=urn:btih:'' then ([Next], lastRequestTime)
          else if now w - lastRequestTime < minInterval then
            ([Send (quoted session (throttle_notice (wait_seconds (now w) lastRequestTime)))],
             lastRequestTime)
          else
            (let (effs, threw) = try_block config w session magnetURI
             in ((if threw then effs @ catch_block config w session magnetURI else effs)
                   @ finally_block w session,
                 now w)))"

section \<open>Example inputs\<close>

text \<open>A configuration with the schema's defaults, a message carrying a magnet link, and a
  world around them, given the outcome of the lookup.\<close>

definition cfg0 :: config where
  "cfg0 = \<lparr>apiEndpoint = ''https://whatslink.info/api/v1/link'', timeout = 10000,
            useForward = False, showScreenshot = True, debugMode = False,
            sendSeparately = False, customUserAgent = ''Mozilla/5.0'', useLocalParsing = True\<rparr>"

definition uri0 :: string where
  "uri0 = ''magnet:?xt=urn:btih:abc&dn=a+b''"

definition s0 :: session where
  "s0 = \<lparr>content = ''magnet:?xt=urn:btih:abc&dn=a+b ok'',
          messageId = ''m1'', channelId = ''c1'', platform = ''onebot''\<rparr>"

definition world_of :: "int \<Rightarrow> http_result \<Rightarrow> world" where
  "world_of t r = \<lparr>now = t, url_api = True, api_response = r,
                   image_get = (\<lambda>u. if u = ''http://x/2.jpg'' then None else Some (''JPEG '' @ u)),
                   send_ids = [''p1'']\<rparr>"


text \<open>A successful response with three screenshots, two given as strings and one as an
  object.\<close>

definition three_shots :: jsval where
  "three_shots =
     Obj [(''name'', Str ''Sintel''), (''size'', Num 1536), (''count'', Num 3),
          (''screenshots'',
             Arr [Str ''http://x/1.jpg'', Obj [(''screenshot'', Str ''https://x/3.jpg'')],
                  Str ''http://x/4.jpg''])]"



section \<open>Magnet links written from their parameters\<close>










section \<open>Properties of formatBytes\<close>


lemma ilog1024_bounds: "0 < n \<Longrightarrow> 1024 ^ ilog1024 n \<le> n \<and> n < 1024 ^ Suc (ilog1024 n)"
proof (induction n rule: ilog1024.induct)
  case (1 n)
  show ?case
  proof (cases "n < 1024")
    case True
    with "1.prems" show ?thesis by (simp add: ilog1024.simps [of n])
  next
    case False
    then have "0 < n div 1024" by simp
    with "1.IH" False
    have ih: "1024 ^ ilog1024 (n div 1024) \<le> n div 1024"
             "n div 1024 < 1024 ^ Suc (ilog1024 (n div 1024))" by simp_all
    have "1024 * 1024 ^ ilog1024 (n div 1024) \<le> n"
      using ih(1) by (simp add: less_eq_div_iff_mult_less_eq mult.commute)
    moreover have "n < 1024 * 1024 ^ Suc (ilog1024 (n div 1024))"
      using ih(2) by (simp add: div_less_iff_less_mult mult.commute)
    ultimately show ?thesis using False by (simp add: ilog1024.simps [of n])
  qed
qed

lemma ilog1024_floor_log:
  assumes "0 < n"
  shows "int (ilog1024 n) = \<lfloor>log 1024 (real n)\<rfloor>"
proof -
  have b: "1024 ^ ilog1024 n \<le> n" "n < 1024 ^ Suc (ilog1024 n)"
    using ilog1024_bounds [OF assms] by simp_all
  have "real (1024 ^ ilog1024 n) \<le> real n" using b(1) of_nat_le_iff by blast
  then have lo: "1024 powr real (ilog1024 n) \<le> real n"
    by (simp add: powr_realpow)
  have "real n < real (1024 ^ Suc (ilog1024 n))" using b(2) of_nat_less_iff by blast
  then have hi: "real n < 1024 powr (real (ilog1024 n) + 1)"
    by (simp add: powr_realpow powr_add)
  have "\<lfloor>log 1024 (real n)\<rfloor> = int (ilog1024 n)"
    using floor_log_eq_powr_iff [of "real n" 1024 "int (ilog1024 n)"] assms lo hi by simp
  then show ?thesis by simp
qed




text \<open>C8. \<open>formatBytes(0)\<close> is "0 B", \<open>formatBytes(1024)\<close> is "1 KB" and
  \<open>formatBytes(1536)\<close> is "1.5 KB".\<close>

theorem formatBytes_examples:
  "formatBytes (Fin 0) = ''0 B'' \<and> formatBytes (Fin 1024) = ''1 KB''
     \<and> formatBytes (Fin 1536) = ''1.5 KB''"
  by (simp add: formatBytes_def ilog1024.simps to_fixed2_def hundredths_to_string_def
      dec.simps digit_char_def sizes_at_def sizes_def)



lemma formatBytes_PB: "formatBytes (Fin (1024 ^ 5)) = ''1 undefined''"
  by (simp add: formatBytes_def ilog1024.simps to_fixed2_def hundredths_to_string_def
      dec.simps digit_char_def sizes_at_def sizes_def)


section \<open>The examples, evaluated\<close>

lemma match0: "match_magnet (content s0) = Some uri0"
  by (simp add: s0_def uri0_def toLowerCase_def lower_char_def ws_len_def in_range_def)

lemma incl0: "str_includes uri0 ''xt=urn:btih:''"
  by (simp add: uri0_def)

lemma s0_fields: "messageId s0 = ''m1''" "channelId s0 = ''c1''" "platform s0 = ''onebot''"
  by (simp_all add: s0_def)

lemma search0: "URL_search uri0 = Some ''?xt=urn:btih:abc&dn=a+b''"
  by (simp add: URL_search_def uri0_def url_preprocess_def url_scheme_def url_query_def
      is_alpha_def is_scheme_char_def in_range_def query_encode_def in_query_set_def
      toLowerCase_def lower_char_def)

lemma params0:
  "URLSearchParams ''?xt=urn:btih:abc&dn=a+b'' = [(''xt'', ''urn:btih:abc''), (''dn'', ''a b'')]"
  by (simp add: URLSearchParams_def form_pair_def form_decode_def utf8_decode_def in_range_def)

lemma structured0:
  "parseLocalMagnet True uri0 =
     Some \<lparr>hash = Some ''abc'', name = ''a b'', trackers = [], size' = None\<rparr>"
  by (simp add: parseLocalMagnet_def search0 params0 params_get_def params_getAll_def
      decodeURIComponent_def)

lemma manual0:
  "parseLocalMagnetManual uri0 =
     Some \<lparr>hash = Some ''abc'', name = ''a+b'', trackers = [], size' = None\<rparr>"
  by (simp add: parseLocalMagnetManual_def uri0_def startsWith_def substring_def
      decodeURIComponent_def unknown_resource_def manual_case_def)

lemma local_decode0:
  "local_decode (world_of t r) uri0 =
     ([ParseLocalMagnet], Some \<lparr>hash = Some ''abc'', name = ''a b'', trackers = [], size' = None\<rparr>)"
  by (simp add: local_decode_def world_of_def structured0)

section \<open>The middleware, path by path\<close>

lemma middleware_passed:
  assumes "match_magnet (content session) = Some magnetURI"
      and "str_includes magnetURI ''xt=urn:btih:''"
      and "minInterval \<le> now w - lastRequestTime"
  shows "middleware config w session lastRequestTime =
           ((if snd (try_block config w session magnetURI)
             then fst (try_block config w session magnetURI) @ catch_block config w session magnetURI
             else fst (try_block config w session magnetURI)) @ finally_block w session,
            now w)"
  using assms by (simp add: middleware_def split_def)

lemma try_block_incomplete:
  assumes "api_response w = Response apiResponse" "truthy apiResponse"
      and "\<not> truthy (get_prop apiResponse ''error'')" "\<not> truthy (get_prop apiResponse ''message'')"
      and "\<not> truthy (get_prop apiResponse ''name'') \<or> \<not> truthy (get_prop apiResponse ''size'')"
  shows "try_block config w session magnetURI =
           (started config session magnetURI @ [Send (quoted session incomplete_notice)], False)"
  using assms by (auto simp: try_block_def started_def)

lemma try_block_empty:
  assumes "api_response w = Response apiResponse" "\<not> truthy apiResponse"
  shows "try_block config w session magnetURI = (started config session magnetURI, True)"
  using assms by (simp add: try_block_def started_def)

lemma try_block_quota:
  assumes "api_response w = Response apiResponse" "truthy apiResponse"
      and "js_or (get_prop apiResponse ''error'') (get_prop apiResponse ''message'') = Str errorMsg"
      and "errorMsg \<noteq> []" "is_quota_text errorMsg"
  shows "try_block config w session magnetURI =
           (started config session magnetURI @
              (if useLocalParsing config then local_fallback quota_banner w session magnetURI
               else [Send (quoted session (quota_notice errorMsg))]), False)"
proof -
  have "truthy (get_prop apiResponse ''error'') \<or> truthy (get_prop apiResponse ''message'')"
    using assms(3,4) by (auto simp: js_or_def split: if_splits)
  then show ?thesis using assms by (simp add: try_block_def started_def)
qed

lemma try_block_other:
  assumes "api_response w = Response apiResponse" "truthy apiResponse"
      and "js_or (get_prop apiResponse ''error'') (get_prop apiResponse ''message'') = Str errorMsg"
      and "errorMsg \<noteq> []" "\<not> is_quota_text errorMsg"
  shows "try_block config w session magnetURI =
           (started config session magnetURI @ [Send (quoted session (failed_prefix @ errorMsg))],
            False)"
proof -
  have "truthy (get_prop apiResponse ''error'') \<or> truthy (get_prop apiResponse ''message'')"
    using assms(3,4) by (auto simp: js_or_def split: if_splits)
  then show ?thesis using assms by (simp add: try_block_def started_def)
qed

lemma finally_no_call: "Called f \<notin> set (finally_block w session)"
  by (simp add: finally_block_def split: list.splits)

lemma started_no_call: "Called f \<notin> set (started config session magnetURI)"
  by (simp add: started_def)

text \<open>C4. A response that is present, has no \<open>error\<close> and no \<open>message\<close> member, and lacks
  \<open>size\<close> or lacks \<open>name\<close>: the run sends the placeholder, makes the request, sends the
  "data incomplete" notice and ends (the placeholder is deleted). Whatever \<open>useLocalParsing\<close>
  is, no decoder and no formatter is called.\<close>

theorem missing_field_incomplete:
  assumes "match_magnet (content session) = Some magnetURI"
      and "str_includes magnetURI ''xt=urn:btih:''"
      and "minInterval \<le> now w - lastRequestTime"
      and "api_response w = Response apiResponse" and "truthy apiResponse"
      and "get_prop apiResponse ''error'' = Undefined"
      and "get_prop apiResponse ''message'' = Undefined"
      and "get_prop apiResponse ''size'' = Undefined \<or> get_prop apiResponse ''name'' = Undefined"
  shows "fst (middleware (config\<lparr>useLocalParsing := b\<rparr>) w session lastRequestTime) =
           [Send (quoted session placeholder),
            ApiGet (apiEndpoint config) magnetURI (timeout config) (customUserAgent config),
            Send (quoted session incomplete_notice)] @ finally_block w session
         \<and> (\<forall>f. Called f \<notin> set (fst (middleware (config\<lparr>useLocalParsing := b\<rparr>) w session
                                        lastRequestTime)))"
proof -
  let ?c = "config\<lparr>useLocalParsing := b\<rparr>"
  have "\<not> truthy (get_prop apiResponse ''name'') \<or> \<not> truthy (get_prop apiResponse ''size'')"
    using assms(8) by auto
  then have "try_block ?c w session magnetURI =
      (started ?c session magnetURI @ [Send (quoted session incomplete_notice)], False)"
    using assms(4-7) by (intro try_block_incomplete) simp_all
  then have "fst (middleware ?c w session lastRequestTime) =
      started ?c session magnetURI @ [Send (quoted session incomplete_notice)]
        @ finally_block w session"
    using middleware_passed [OF assms(1-3), of ?c] by simp
  then show ?thesis using finally_no_call by (simp add: started_def)
qed

theorem missing_field_incomplete_witness:
  "match_magnet (content s0) = Some uri0 \<and> str_includes uri0 ''xt=urn:btih:''
   \<and> fst (middleware (cfg0\<lparr>useLocalParsing := True\<rparr>)
            (world_of 5000 (Response (Obj [(''name'', Str ''Sintel'')]))) s0 0) =
       [Send (quoted s0 placeholder),
        ApiGet ''https://whatslink.info/api/v1/link'' uri0 10000 ''Mozilla/5.0'',
        Send (quoted s0 incomplete_notice), DeleteMessage ''c1'' ''p1'']"
  using missing_field_incomplete [where session = s0 and magnetURI = uri0
      and w = "world_of 5000 (Response (Obj [(''name'', Str ''Sintel'')]))"
      and lastRequestTime = 0 and apiResponse = "Obj [(''name'', Str ''Sintel'')]"
      and config = cfg0 and b = True] match0 incl0
  by (simp add: world_of_def minInterval_def cfg0_def finally_block_def s0_def)


section \<open>Helper facts on worlds and effects\<close>

lemma local_decode_world:
  "local_decode (w\<lparr>api_response := r\<rparr>) magnetURI = local_decode w magnetURI"
  by (simp add: local_decode_def)

lemma local_fallback_world:
  "local_fallback banner (w\<lparr>api_response := r\<rparr>) session magnetURI =
     local_fallback banner w session magnetURI"
  by (simp add: local_fallback_def local_decode_world)

lemma catch_block_world:
  "catch_block config (w\<lparr>api_response := r\<rparr>) session magnetURI =
     catch_block config w session magnetURI"
  by (simp add: catch_block_def local_fallback_world)

lemma finally_block_world:
  "finally_block (w\<lparr>api_response := r\<rparr>) session = finally_block w session"
  by (simp add: finally_block_def)

lemma get_prop_filter:
  "get_prop (Obj (filter (\<lambda>p. fst p \<noteq> k) kvs)) k' =
     (if k' = k then Undefined else get_prop (Obj kvs) k')"
  by (induction kvs) auto

lemma local_decode_calls:
  "fst (local_decode w magnetURI) = [ParseLocalMagnet]
   \<or> fst (local_decode w magnetURI) = [ParseLocalMagnet, ParseLocalMagnetManual]"
  by (simp add: local_decode_def split: option.splits)

lemma local_fallback_usable:
  assumes "local_decode w magnetURI = (calls, Some r)" and "usable (Some r)"
  shows "local_fallback banner w session magnetURI =
           map Called calls @ [Send (quoted session (local_message banner r))]"
  using assms by (simp add: local_fallback_def)

lemma local_fallback_unusable:
  assumes "local_decode w magnetURI = (calls, localResult)" and "\<not> usable localResult"
  shows "local_fallback banner w session magnetURI =
           map Called calls @ [Send (quoted session local_failed_notice)]"
  using assms by (auto simp: local_fallback_def split: option.splits)

lemma local_fallback_starts:
  "\<exists>rest. local_fallback banner w session magnetURI = Called ParseLocalMagnet # rest"
  using local_decode_calls [of w magnetURI]
  by (cases "local_decode w magnetURI") (auto simp: local_fallback_def)

lemma sent_append: "sent (xs @ ys) = sent xs @ sent ys"
  by (induction xs rule: sent.induct) simp_all

lemma sent_calls: "sent (map Called calls) = []"
  by (induction calls) simp_all

lemma sent_started: "sent (started config session magnetURI) = [quoted session placeholder]"
  by (simp add: started_def)

lemma sent_finally: "sent (finally_block w session) = []"
  by (simp add: finally_block_def split: list.splits)

text \<open>C9. A response object whose \<open>name\<close> or \<open>size\<close> member is present but falsy (\<open>size\<close>
  equal to 0, \<open>name\<close> the empty string) makes the middleware do exactly what it does on the
  same object without that member; and when the object reports no error, what it does is
  to send the "data incomplete" notice, with no success reply.\<close>

theorem falsy_field_like_missing:
  assumes "k = ''name'' \<or> k = ''size''"
      and "map_of kvs k = Some v" and "\<not> truthy v"
  shows "middleware config (w\<lparr>api_response := Response (Obj kvs)\<rparr>) session lastRequestTime =
           middleware config (w\<lparr>api_response := Response (Obj (filter (\<lambda>p. fst p \<noteq> k) kvs))\<rparr>)
             session lastRequestTime
         \<and> (match_magnet (content session) = Some magnetURI
              \<and> str_includes magnetURI ''xt=urn:btih:''
              \<and> minInterval \<le> now w - lastRequestTime
              \<and> \<not> truthy (get_prop (Obj kvs) ''error'')
              \<and> \<not> truthy (get_prop (Obj kvs) ''message'')
            \<longrightarrow> fst (middleware config (w\<lparr>api_response := Response (Obj kvs)\<rparr>) session
                       lastRequestTime) =
                  [Send (quoted session placeholder),
                   ApiGet (apiEndpoint config) magnetURI (timeout config) (customUserAgent config),
                   Send (quoted session incomplete_notice)] @ finally_block w session)"
proof -
  let ?present = "Obj kvs" and ?missing = "Obj (filter (\<lambda>p. fst p \<noteq> k) kvs)"
  have falsy: "\<not> truthy (get_prop ?present k)" "\<not> truthy (get_prop ?missing k)"
    using assms(2,3) by (simp, simp add: get_prop_filter del: get_prop.simps)
  have other: "\<And>k'. k' \<noteq> k \<Longrightarrow> get_prop ?missing k' = get_prop ?present k'"
    by (simp add: get_prop_filter del: get_prop.simps)
  have em: "get_prop ?missing ''error'' = get_prop ?present ''error''"
           "get_prop ?missing ''message'' = get_prop ?present ''message''"
    using assms(1) by (auto simp: get_prop_filter simp del: get_prop.simps)
  have incomplete:
    "\<not> truthy (get_prop ?present ''name'') \<or> \<not> truthy (get_prop ?present ''size'')"
    "\<not> truthy (get_prop ?missing ''name'') \<or> \<not> truthy (get_prop ?missing ''size'')"
    using assms(1) falsy by auto
  have "try_block config (w\<lparr>api_response := Response ?present\<rparr>) session u =
        try_block config (w\<lparr>api_response := Response ?missing\<rparr>) session u" for u
  proof (cases "truthy (get_prop ?present ''error'') \<or> truthy (get_prop ?present ''message'')")
    case True
    then show ?thesis
      by (simp add: try_block_def em local_fallback_world Let_def del: get_prop.simps
          split: jsval.splits)
  next
    case False
    then have "try_block config (w\<lparr>api_response := Response ?present\<rparr>) session u =
        (started config session u @ [Send (quoted session incomplete_notice)], False)"
      using incomplete(1) by (intro try_block_incomplete [where apiResponse = ?present]) simp_all
    moreover have "try_block config (w\<lparr>api_response := Response ?missing\<rparr>) session u =
        (started config session u @ [Send (quoted session incomplete_notice)], False)"
      using False incomplete(2) em
      by (intro try_block_incomplete [where apiResponse = ?missing]) simp_all
    ultimately show ?thesis by simp
  qed
  then have same: "middleware config (w\<lparr>api_response := Response ?present\<rparr>) session lastRequestTime =
      middleware config (w\<lparr>api_response := Response ?missing\<rparr>) session lastRequestTime"
    by (simp add: middleware_def catch_block_world finally_block_world split_def Let_def
        split: option.splits cong: if_cong)
  have notice: "fst (middleware config (w\<lparr>api_response := Response ?present\<rparr>) session
                       lastRequestTime) =
        [Send (quoted session placeholder),
         ApiGet (apiEndpoint config) magnetURI (timeout config) (customUserAgent config),
         Send (quoted session incomplete_notice)] @ finally_block w session"
    if h: "match_magnet (content session) = Some magnetURI"
          "str_includes magnetURI ''xt=urn:btih:''"
          "minInterval \<le> now w - lastRequestTime"
          "\<not> truthy (get_prop ?present ''error'')" "\<not> truthy (get_prop ?present ''message'')"
  proof -
    let ?w = "w\<lparr>api_response := Response ?present\<rparr>"
    have "try_block config ?w session magnetURI =
        (started config session magnetURI @ [Send (quoted session incomplete_notice)], False)"
      using h(4,5) incomplete(1) by (intro try_block_incomplete [where apiResponse = ?present]) simp_all
    moreover have "minInterval \<le> now ?w - lastRequestTime" using h(3) by simp
    ultimately show ?thesis
      using middleware_passed [OF h(1,2), of ?w lastRequestTime config]
      by (simp add: started_def finally_block_world)
  qed
  show ?thesis using same notice by blast
qed

theorem falsy_field_like_missing_witness:
  "map_of [(''name'', Str ''Sintel''), (''size'', Num 0)] ''size'' = Some (Num 0) \<and> \<not> truthy (Num 0)
   \<and> match_magnet (content s0) = Some uri0 \<and> str_includes uri0 ''xt=urn:btih:''
   \<and> middleware cfg0 (world_of 5000 (Response (Obj [(''name'', Str ''Sintel''), (''size'', Num 0)]))) s0 0 =
       middleware cfg0 (world_of 5000 (Response (Obj [(''name'', Str ''Sintel'')]))) s0 0
   \<and> fst (middleware cfg0
            (world_of 5000 (Response (Obj [(''name'', Str ''Sintel''), (''size'', Num 0)]))) s0 0) =
       [Send (quoted s0 placeholder),
        ApiGet ''https://whatslink.info/api/v1/link'' uri0 10000 ''Mozilla/5.0'',
        Send (quoted s0 incomplete_notice), DeleteMessage ''c1'' ''p1'']"
  using falsy_field_like_missing [where k = "''size''"
      and kvs = "[(''name'', Str ''Sintel''), (''size'', Num 0)]" and v = "Num 0"
      and config = cfg0 and w = "world_of 5000 Failed" and session = s0
      and lastRequestTime = 0 and magnetURI = uri0]
  by (auto simp: world_of_def minInterval_def cfg0_def finally_block_def s0_fields match0 incl0)


lemma catch_no_call_when_off:
  "\<not> useLocalParsing config \<Longrightarrow> Called f \<notin> set (catch_block config w session magnetURI)"
  by (simp add: catch_block_def)

text \<open>C1, as amended. A lookup whose body is empty or absent throws inside the \<open>try\<close> block
  and is handled by the \<open>catch\<close> block. With \<open>useLocalParsing\<close> off, the run sends the
  generic failure notice and calls no decoder. With \<open>useLocalParsing\<close> on, the local decoder
  is run, and a usable result is answered with the reduced-form reply.\<close>

theorem empty_body_reaches_catch:
  assumes "match_magnet (content session) = Some magnetURI"
      and "str_includes magnetURI ''xt=urn:btih:''"
      and "minInterval \<le> now w - lastRequestTime"
      and "api_response w = Response apiResponse" and "\<not> truthy apiResponse"
  shows "fst (middleware config w session lastRequestTime) =
           [Send (quoted session placeholder),
            ApiGet (apiEndpoint config) magnetURI (timeout config) (customUserAgent config)]
           @ (if useLocalParsing config
              then local_fallback failure_banner w session magnetURI
              else [Send (quoted session unavailable_notice)])
           @ finally_block w session
         \<and> (\<not> useLocalParsing config \<longrightarrow>
              (\<forall>f. Called f \<notin> set (fst (middleware config w session lastRequestTime))))
         \<and> (useLocalParsing config \<longrightarrow>
              Called ParseLocalMagnet \<in> set (fst (middleware config w session lastRequestTime))
              \<and> (\<forall>r. snd (local_decode w magnetURI) = Some r \<and> usable (Some r) \<longrightarrow>
                     Send (quoted session (local_message failure_banner r))
                       \<in> set (fst (middleware config w session lastRequestTime))))"
proof -
  let ?effs = "fst (middleware config w session lastRequestTime)"
  have run: "?effs = started config session magnetURI
               @ catch_block config w session magnetURI @ finally_block w session"
    using middleware_passed [OF assms(1-3), of config] try_block_empty [OF assms(4,5)]
    by simp
  have shape: "?effs = [Send (quoted session placeholder),
            ApiGet (apiEndpoint config) magnetURI (timeout config) (customUserAgent config)]
           @ (if useLocalParsing config
              then local_fallback failure_banner w session magnetURI
              else [Send (quoted session unavailable_notice)])
           @ finally_block w session"
    using run by (simp add: started_def catch_block_def)
  have off: "\<forall>f. Called f \<notin> set ?effs" if "\<not> useLocalParsing config"
    using that run started_no_call finally_no_call catch_no_call_when_off by simp
  have on1: "Called ParseLocalMagnet \<in> set ?effs" if "useLocalParsing config"
    using that run local_fallback_starts [of failure_banner w session magnetURI]
    by (auto simp: catch_block_def)
  have on2: "Send (quoted session (local_message failure_banner r)) \<in> set ?effs"
    if h: "useLocalParsing config" "snd (local_decode w magnetURI) = Some r"
      "usable (Some r)" for r
  proof -
    obtain calls where "local_decode w magnetURI = (calls, Some r)"
      using h(2) by (cases "local_decode w magnetURI") simp
    then have "local_fallback failure_banner w session magnetURI =
        map Called calls @ [Send (quoted session (local_message failure_banner r))]"
      using h(3) by (rule local_fallback_usable)
    then show ?thesis using h(1) run by (simp add: catch_block_def)
  qed
  show ?thesis
  proof (intro conjI impI allI)
    show "?effs = [Send (quoted session placeholder),
            ApiGet (apiEndpoint config) magnetURI (timeout config) (customUserAgent config)]
           @ (if useLocalParsing config
              then local_fallback failure_banner w session magnetURI
              else [Send (quoted session unavailable_notice)])
           @ finally_block w session" by (rule shape)
  next
    fix f assume "\<not> useLocalParsing config"
    then show "Called f \<notin> set ?effs" using off by simp
  next
    assume "useLocalParsing config"
    then show "Called ParseLocalMagnet \<in> set ?effs" by (rule on1)
  next
    fix r
    assume "useLocalParsing config"
      and "snd (local_decode w magnetURI) = Some r \<and> usable (Some r)"
    then show "Send (quoted session (local_message failure_banner r)) \<in> set ?effs"
      using on2 by simp
  qed
qed

lemma reply0:
  "local_fallback banner (world_of t r) s0 uri0 =
     [Called ParseLocalMagnet,
      Send (quoted s0 (local_message banner
        \<lparr>hash = Some ''abc'', name = ''a b'', trackers = [], size' = None\<rparr>))]"
  by (simp add: local_fallback_def local_decode0 usable_def)

theorem empty_body_reaches_catch_witness:
  "match_magnet (content s0) = Some uri0 \<and> str_includes uri0 ''xt=urn:btih:''
   \<and> minInterval \<le> now (world_of 5000 (Response Null)) - 0 \<and> \<not> truthy Null
   \<and> fst (middleware (cfg0\<lparr>useLocalParsing := False\<rparr>) (world_of 5000 (Response Null)) s0 0) =
       [Send (quoted s0 placeholder),
        ApiGet ''https://whatslink.info/api/v1/link'' uri0 10000 ''Mozilla/5.0'',
        Send (quoted s0 unavailable_notice), DeleteMessage ''c1'' ''p1'']"
  using empty_body_reaches_catch [where session = s0 and magnetURI = uri0
      and w = "world_of 5000 (Response Null)" and lastRequestTime = 0 and apiResponse = Null
      and config = "cfg0\<lparr>useLocalParsing := False\<rparr>"]
  by (simp add: world_of_def minInterval_def cfg0_def finally_block_def s0_fields match0 incl0)

text \<open>C1 as stated fails: with the default \<open>useLocalParsing = true\<close> and an empty body
  (\<open>null\<close>), the local decoder runs and the reduced-form reply is sent.\<close>

theorem empty_body_counterexample:
  "fst (middleware cfg0 (world_of 5000 (Response Null)) s0 0) =
     [Send (quoted s0 placeholder),
      ApiGet ''https://whatslink.info/api/v1/link'' uri0 10000 ''Mozilla/5.0'',
      Called ParseLocalMagnet,
      Send (quoted s0 (local_message failure_banner
        \<lparr>hash = Some ''abc'', name = ''a b'', trackers = [], size' = None\<rparr>)),
      DeleteMessage ''c1'' ''p1'']"
proof -
  have "minInterval \<le> now (world_of 5000 (Response Null)) - 0"
    by (simp add: world_of_def minInterval_def)
  moreover have "try_block cfg0 (world_of 5000 (Response Null)) s0 uri0 =
      (started cfg0 s0 uri0, True)"
    by (rule try_block_empty [where apiResponse = Null]) (simp_all add: world_of_def)
  ultimately have "fst (middleware cfg0 (world_of 5000 (Response Null)) s0 0) =
      started cfg0 s0 uri0 @ catch_block cfg0 (world_of 5000 (Response Null)) s0 uri0
        @ finally_block (world_of 5000 (Response Null)) s0"
    using middleware_passed [OF match0 incl0, of "world_of 5000 (Response Null)" 0 cfg0] by simp
  moreover have "catch_block cfg0 (world_of 5000 (Response Null)) s0 uri0 =
      local_fallback failure_banner (world_of 5000 (Response Null)) s0 uri0"
    by (simp add: catch_block_def cfg0_def)
  moreover have "finally_block (world_of 5000 (Response Null)) s0 = [DeleteMessage ''c1'' ''p1'']"
    by (simp add: finally_block_def world_of_def s0_fields)
  ultimately show ?thesis
    by (simp add: reply0 started_def cfg0_def)
qed

lemma quota_text_nonempty: "is_quota_text errorMsg \<Longrightarrow> errorMsg \<noteq> []"
  by (auto simp: is_quota_text_def toLowerCase_def)

lemma local_message_parts:
  "\<exists>a b c d. local_message banner r =
      a @ name r @ b @ (case hash r of None \<Rightarrow> ''undefined'' | Some x \<Rightarrow> x) @ c
        @ sizeText r @ d"
proof (cases "hasUsefulInfo r")
  case True
  then have "local_message banner r = (banner @ heading_label) @ name r @ hash_label
      @ (case hash r of None \<Rightarrow> ''undefined'' | Some x \<Rightarrow> x) @ size_label @ sizeText r
      @ (trackers_label @ dec (length (trackers r)) @ basic_hint)"
    by (simp add: local_message_def)
  then show ?thesis by blast
next
  case False
  then have "local_message banner r = (banner @ heading_label) @ name r @ hash_label
      @ (case hash r of None \<Rightarrow> ''undefined'' | Some x \<Rightarrow> x) @ size_label @ sizeText r
      @ (trackers_label @ dec (length (trackers r)) @ incomplete_hint)"
    by (simp add: local_message_def)
  then show ?thesis by blast
qed

lemma example_is_quota: "is_quota_text ''rate limit exceeded''"
  by (simp add: is_quota_text_def toLowerCase_def lower_char_def)

text \<open>C3, as amended. The text the middleware inspects is \<open>apiResponse.error ||
  apiResponse.message\<close>: the \<open>error\<close> member when it is truthy, otherwise the \<open>message\<close>
  member. When that text contains \<open>quota\<close>, \<open>limit\<close>, \<open>frequent\<close> or \<open>rate\<close> in any letter
  case, \<open>useLocalParsing\<close> is on and the local decoders return a result with a non-empty
  hash, the run sends, besides the placeholder, exactly one message: the reduced-form
  reply, which shows the decoded name, hash and size. The formatter is not called.\<close>

theorem quota_error_local_reply:
  assumes "match_magnet (content session) = Some magnetURI"
      and "str_includes magnetURI ''xt=urn:btih:''"
      and "minInterval \<le> now w - lastRequestTime"
      and "api_response w = Response apiResponse" and "truthy apiResponse"
      and "js_or (get_prop apiResponse ''error'') (get_prop apiResponse ''message'') = Str errorMsg"
      and "is_quota_text errorMsg"
      and "useLocalParsing config"
      and "local_decode w magnetURI = (calls, Some r)"
      and "hash r = Some digest" and "digest \<noteq> []"
  shows "fst (middleware config w session lastRequestTime) =
           [Send (quoted session placeholder),
            ApiGet (apiEndpoint config) magnetURI (timeout config) (customUserAgent config)]
           @ map Called calls
           @ [Send (quoted session (local_message quota_banner r))]
           @ finally_block w session
         \<and> sent (fst (middleware config w session lastRequestTime)) =
             [quoted session placeholder, quoted session (local_message quota_banner r)]
         \<and> (\<exists>a b c d. local_message quota_banner r =
               a @ name r @ b @ digest @ c @ sizeText r @ d)
         \<and> Called FormatApiResponse \<notin> set (fst (middleware config w session lastRequestTime))"
proof -
  let ?effs = "fst (middleware config w session lastRequestTime)"
  have "usable (Some r)" using assms(10,11) by (simp add: usable_def)
  then have fb: "local_fallback quota_banner w session magnetURI =
      map Called calls @ [Send (quoted session (local_message quota_banner r))]"
    using assms(9) local_fallback_usable by blast
  have "try_block config w session magnetURI =
      (started config session magnetURI @ local_fallback quota_banner w session magnetURI, False)"
    using try_block_quota [OF assms(4,5,6) quota_text_nonempty [OF assms(7)] assms(7), of config]
      assms(8) by simp
  then have run: "?effs = started config session magnetURI @ map Called calls
      @ [Send (quoted session (local_message quota_banner r))] @ finally_block w session"
    using middleware_passed [OF assms(1-3), of config] fb by simp
  have calls: "calls = [ParseLocalMagnet] \<or> calls = [ParseLocalMagnet, ParseLocalMagnetManual]"
    using local_decode_calls [of w magnetURI] assms(9) by simp
  show ?thesis
  proof (intro conjI)
    show "?effs = [Send (quoted session placeholder),
            ApiGet (apiEndpoint config) magnetURI (timeout config) (customUserAgent config)]
           @ map Called calls
           @ [Send (quoted session (local_message quota_banner r))]
           @ finally_block w session"
      using run by (simp add: started_def)
    show "sent ?effs = [quoted session placeholder, quoted session (local_message quota_banner r)]"
      by (simp add: run sent_append sent_started sent_calls sent_finally)
    show "\<exists>a b c d. local_message quota_banner r = a @ name r @ b @ digest @ c @ sizeText r @ d"
      using local_message_parts [of quota_banner r] assms(10) by simp
    show "Called FormatApiResponse \<notin> set ?effs"
      using calls finally_no_call [of FormatApiResponse w session]
      by (auto simp: run started_def)
  qed
qed

lemma quota_body0:
  "js_or (get_prop (Obj [(''error'', Str ''rate limit exceeded'')]) ''error'')
         (get_prop (Obj [(''error'', Str ''rate limit exceeded'')]) ''message'')
     = Str ''rate limit exceeded''"
  by (simp add: js_or_def)

theorem quota_error_local_reply_witness:
  "match_magnet (content s0) = Some uri0 \<and> str_includes uri0 ''xt=urn:btih:''
   \<and> is_quota_text ''rate limit exceeded''
   \<and> fst (middleware cfg0
            (world_of 5000 (Response (Obj [(''error'', Str ''rate limit exceeded'')]))) s0 0) =
       [Send (quoted s0 placeholder),
        ApiGet ''https://whatslink.info/api/v1/link'' uri0 10000 ''Mozilla/5.0'',
        Called ParseLocalMagnet,
        Send (quoted s0 (local_message quota_banner
          \<lparr>hash = Some ''abc'', name = ''a b'', trackers = [], size' = None\<rparr>)),
        DeleteMessage ''c1'' ''p1'']"
proof -
  let ?w = "world_of 5000 (Response (Obj [(''error'', Str ''rate limit exceeded'')]))"
  have a: "minInterval \<le> now ?w - 0" by (simp add: world_of_def minInterval_def)
  have b: "api_response ?w = Response (Obj [(''error'', Str ''rate limit exceeded'')])"
    by (simp add: world_of_def)
  have c: "useLocalParsing cfg0" by (simp add: cfg0_def)
  have d: "finally_block ?w s0 = [DeleteMessage ''c1'' ''p1'']"
    by (simp add: finally_block_def world_of_def s0_fields)
  have e: "apiEndpoint cfg0 = ''https://whatslink.info/api/v1/link''" "timeout cfg0 = 10000"
    "customUserAgent cfg0 = ''Mozilla/5.0''" by (simp_all add: cfg0_def)
  show ?thesis
    using quota_error_local_reply [OF match0 incl0 a b _ quota_body0 example_is_quota c
        local_decode0, of "''abc''"]
    by (simp add: d e match0 incl0 example_is_quota)
qed

text \<open>C3 as stated fails when both members are present and only \<open>message\<close> has one of the
  words: \<open>error\<close> is the text inspected, and the answer is the plain failure notice.\<close>

theorem quota_in_message_counterexample:
  "is_quota_text ''Rate limit exceeded''
   \<and> useLocalParsing cfg0
   \<and> local_decode (world_of 5000 (Response (Obj [(''error'', Str ''too_many_requests''),
        (''message'', Str ''Rate limit exceeded'')]))) uri0 =
       ([ParseLocalMagnet], Some \<lparr>hash = Some ''abc'', name = ''a b'', trackers = [], size' = None\<rparr>)
   \<and> fst (middleware cfg0
            (world_of 5000 (Response (Obj [(''error'', Str ''too_many_requests''),
               (''message'', Str ''Rate limit exceeded'')]))) s0 0) =
       [Send (quoted s0 placeholder),
        ApiGet ''https://whatslink.info/api/v1/link'' uri0 10000 ''Mozilla/5.0'',
        Send (quoted s0 (failed_prefix @ ''too_many_requests'')),
        DeleteMessage ''c1'' ''p1'']"
proof -
  let ?body = "Obj [(''error'', Str ''too_many_requests''), (''message'', Str ''Rate limit exceeded'')]"
  let ?w = "world_of 5000 (Response ?body)"
  have q: "is_quota_text ''Rate limit exceeded''"
    by (simp add: is_quota_text_def toLowerCase_def lower_char_def)
  have nq: "\<not> is_quota_text ''too_many_requests''"
    by (simp add: is_quota_text_def toLowerCase_def lower_char_def)
  have a: "minInterval \<le> now ?w - 0" by (simp add: world_of_def minInterval_def)
  have b: "api_response ?w = Response ?body" by (simp add: world_of_def)
  have j: "js_or (get_prop ?body ''error'') (get_prop ?body ''message'') = Str ''too_many_requests''"
    by (simp add: js_or_def)
  have "try_block cfg0 ?w s0 uri0 =
      (started cfg0 s0 uri0 @ [Send (quoted s0 (failed_prefix @ ''too_many_requests''))], False)"
    using try_block_other [OF b _ j _ nq] by simp
  then have "fst (middleware cfg0 ?w s0 0) =
      started cfg0 s0 uri0 @ [Send (quoted s0 (failed_prefix @ ''too_many_requests''))]
        @ finally_block ?w s0"
    using middleware_passed [OF match0 incl0 a, of cfg0] by simp
  moreover have "finally_block ?w s0 = [DeleteMessage ''c1'' ''p1'']"
    by (simp add: finally_block_def world_of_def s0_fields)
  ultimately show ?thesis
    using q by (simp add: started_def cfg0_def local_decode0)
qed

section \<open>The throttle\<close>

lemma wait_seconds_ceiling:
  "wait_seconds t lastRequestTime = \<lceil>real_of_int (minInterval - (t - lastRequestTime)) / 1000\<rceil>"
proof -
  define a where "a = minInterval - (t - lastRequestTime)"
  have "\<lceil>real_of_int a / 1000\<rceil> = - \<lfloor>- (real_of_int a / 1000)\<rfloor>"
    by (simp add: ceiling_def)
  also have "- (real_of_int a / 1000) = real_of_int (- a) / real_of_int 1000"
    by simp
  also have "\<lfloor>real_of_int (- a) / real_of_int 1000\<rfloor> = (- a) div 1000"
    by (rule floor_divide_of_int_eq)
  finally show ?thesis by (simp add: wait_seconds_def a_def)
qed

lemma wait_seconds_positive:
  "t - lastRequestTime < minInterval \<Longrightarrow> 0 < wait_seconds t lastRequestTime"
  by (simp add: wait_seconds_def minInterval_def)

lemma middleware_rejected:
  assumes "match_magnet (content session) = Some magnetURI"
      and "str_includes magnetURI ''xt=urn:btih:''"
      and "now w - lastRequestTime < minInterval"
  shows "middleware config w session lastRequestTime =
           ([Send (quoted session (throttle_notice (wait_seconds (now w) lastRequestTime)))],
            lastRequestTime)"
  using assms by (simp add: middleware_def)

lemma try_block_starts:
  "\<exists>rest. fst (try_block config w session magnetURI) = started config session magnetURI @ rest"
  by (auto simp: try_block_def Let_def split_def split: http_result.splits jsval.splits)

lemma middleware_allowed_requests:
  assumes "match_magnet (content session) = Some magnetURI"
      and "str_includes magnetURI ''xt=urn:btih:''"
      and "minInterval \<le> now w - lastRequestTime"
  shows "ApiGet (apiEndpoint config) magnetURI (timeout config) (customUserAgent config)
           \<in> set (fst (middleware config w session lastRequestTime))"
proof -
  obtain rest where "fst (try_block config w session magnetURI) =
      started config session magnetURI @ rest"
    using try_block_starts by blast
  then show ?thesis
    using middleware_passed [OF assms, of config] by (auto simp: started_def)
qed

text \<open>C5, as amended. When a trigger at \<open>t1\<close> has been allowed, a trigger at \<open>t2\<close> with
  \<open>|t2 - t1| < minInterval\<close> is rejected: the only effect is the notice with the remaining
  interval rounded up to whole seconds, which is positive; no request is made and
  \<open>lastRequestTime\<close> stays \<open>t1\<close>. In any state, a trigger is allowed, the lookup request
  being made, exactly when \<open>now - lastRequestTime \<ge> minInterval\<close>; an allowed trigger sets
  \<open>lastRequestTime\<close> to \<open>now\<close>, a rejected one leaves it alone.\<close>

theorem throttle_second_trigger:
  assumes "match_magnet (content session1) = Some uri1"
      and "str_includes uri1 ''xt=urn:btih:''"
      and "match_magnet (content session2) = Some uri2"
      and "str_includes uri2 ''xt=urn:btih:''"
      and "minInterval \<le> now w1 - lastRequestTime"
      and "\<bar>now w2 - now w1\<bar> < minInterval"
  shows "snd (middleware config w1 session1 lastRequestTime) = now w1
         \<and> middleware config w2 session2 (snd (middleware config w1 session1 lastRequestTime)) =
             ([Send (quoted session2 (throttle_notice (wait_seconds (now w2) (now w1))))], now w1)
         \<and> wait_seconds (now w2) (now w1) =
             \<lceil>real_of_int (minInterval - (now w2 - now w1)) / 1000\<rceil>
         \<and> 0 < wait_seconds (now w2) (now w1)
         \<and> (\<forall>l. (\<exists>e u t a. ApiGet e u t a \<in> set (fst (middleware config w2 session2 l)))
                  = (minInterval \<le> now w2 - l))
         \<and> (\<forall>l. minInterval \<le> now w2 - l \<longrightarrow> snd (middleware config w2 session2 l) = now w2)
         \<and> (\<forall>l. now w2 - l < minInterval \<longrightarrow>
                  middleware config w2 session2 l =
                    ([Send (quoted session2 (throttle_notice (wait_seconds (now w2) l)))], l)
                  \<and> 0 < wait_seconds (now w2) l)"
proof (intro conjI allI impI)
  show first: "snd (middleware config w1 session1 lastRequestTime) = now w1"
    using middleware_passed [OF assms(1,2,5), of config] by simp
  have close: "now w2 - now w1 < minInterval" using assms(6) by linarith
  show "middleware config w2 session2 (snd (middleware config w1 session1 lastRequestTime)) =
      ([Send (quoted session2 (throttle_notice (wait_seconds (now w2) (now w1))))], now w1)"
    using middleware_rejected [OF assms(3,4) close, of config] first by simp
  show "wait_seconds (now w2) (now w1) = \<lceil>real_of_int (minInterval - (now w2 - now w1)) / 1000\<rceil>"
    by (rule wait_seconds_ceiling)
  show "0 < wait_seconds (now w2) (now w1)"
    using close by (rule wait_seconds_positive)
next
  fix l
  show "(\<exists>e u t a. ApiGet e u t a \<in> set (fst (middleware config w2 session2 l)))
          = (minInterval \<le> now w2 - l)"
  proof (cases "minInterval \<le> now w2 - l")
    case True
    then show ?thesis using middleware_allowed_requests [OF assms(3,4), of w2 l config] by blast
  next
    case False
    then have "now w2 - l < minInterval" by simp
    then show ?thesis using middleware_rejected [OF assms(3,4), of w2 l config] False by simp
  qed
next
  fix l assume "minInterval \<le> now w2 - l"
  then show "snd (middleware config w2 session2 l) = now w2"
    using middleware_passed [OF assms(3,4), of w2 l config] by simp
next
  fix l assume "now w2 - l < minInterval"
  then show "middleware config w2 session2 l =
      ([Send (quoted session2 (throttle_notice (wait_seconds (now w2) l)))], l)"
    by (rule middleware_rejected [OF assms(3,4)])
next
  fix l assume "now w2 - l < minInterval"
  then show "0 < wait_seconds (now w2) l" by (rule wait_seconds_positive)
qed

theorem throttle_second_trigger_witness:
  "match_magnet (content s0) = Some uri0 \<and> str_includes uri0 ''xt=urn:btih:''
   \<and> minInterval \<le> now (world_of 1000000 Failed) - 0
   \<and> \<bar>now (world_of 1001200 Failed) - now (world_of 1000000 Failed)\<bar> < minInterval
   \<and> middleware cfg0 (world_of 1001200 Failed) s0
        (snd (middleware cfg0 (world_of 1000000 Failed) s0 0)) =
       ([Send (quoted s0 (throttle_notice 2))], 1000000)"
proof -
  have a: "minInterval \<le> now (world_of 1000000 Failed) - 0"
    by (simp add: world_of_def minInterval_def)
  have b: "\<bar>now (world_of 1001200 Failed) - now (world_of 1000000 Failed)\<bar> < minInterval"
    by (simp add: world_of_def minInterval_def)
  have c: "wait_seconds 1001200 1000000 = 2" by (simp add: wait_seconds_def minInterval_def)
  have d: "now (world_of 1001200 Failed) = 1001200" "now (world_of 1000000 Failed) = 1000000"
    by (simp_all add: world_of_def)
  have "middleware cfg0 (world_of 1001200 Failed) s0
          (snd (middleware cfg0 (world_of 1000000 Failed) s0 0)) =
        ([Send (quoted s0 (throttle_notice (wait_seconds (now (world_of 1001200 Failed))
            (now (world_of 1000000 Failed)))))], now (world_of 1000000 Failed))"
    using throttle_second_trigger [OF match0 incl0 match0 incl0 a b, of cfg0] by blast
  then show ?thesis using a b by (simp add: c d match0 incl0)
qed

text \<open>C5 as stated fails when the first of the two triggers was itself rejected: after a
  request at 1000000 ms, a trigger at 1002000 is rejected and leaves \<open>lastRequestTime\<close>
  alone, so a trigger at 1003500, only 1500 ms later, is allowed and makes the request.\<close>

theorem throttle_counterexample:
  "\<bar>now (world_of 1003500 Failed) - now (world_of 1002000 Failed)\<bar> < minInterval
   \<and> middleware cfg0 (world_of 1002000 Failed) s0 1000000 =
       ([Send (quoted s0 (throttle_notice 1))], 1000000)
   \<and> snd (middleware cfg0 (world_of 1003500 Failed) s0
            (snd (middleware cfg0 (world_of 1002000 Failed) s0 1000000))) = 1003500
   \<and> ApiGet ''https://whatslink.info/api/v1/link'' uri0 10000 ''Mozilla/5.0''
       \<in> set (fst (middleware cfg0 (world_of 1003500 Failed) s0
                     (snd (middleware cfg0 (world_of 1002000 Failed) s0 1000000))))"
proof -
  have d: "now (world_of 1003500 Failed) = 1003500" "now (world_of 1002000 Failed) = 1002000"
    by (simp_all add: world_of_def)
  have r: "middleware cfg0 (world_of 1002000 Failed) s0 1000000 =
      ([Send (quoted s0 (throttle_notice 1))], 1000000)"
    using middleware_rejected [OF match0 incl0, of "world_of 1002000 Failed" 1000000 cfg0]
    by (simp add: d minInterval_def wait_seconds_def)
  have p: "minInterval \<le> now (world_of 1003500 Failed) - 1000000"
    by (simp add: d minInterval_def)
  have "snd (middleware cfg0 (world_of 1003500 Failed) s0 1000000) = 1003500"
    using middleware_passed [OF match0 incl0 p, of cfg0] by (simp add: d)
  moreover have "ApiGet ''https://whatslink.info/api/v1/link'' uri0 10000 ''Mozilla/5.0''
      \<in> set (fst (middleware cfg0 (world_of 1003500 Failed) s0 1000000))"
    using middleware_allowed_requests [OF match0 incl0 p, of cfg0] by (simp add: cfg0_def)
  ultimately show ?thesis by (simp add: r d minInterval_def)
qed

section \<open>The formatter\<close>

lemma fetch_images_all:
  assumes "list_all2 (\<lambda>item buffer. \<exists>u. imageUrl item = Some u \<and> image_get w u = Some buffer)
             items buffers"
  shows "snd (fetch_images w items) = map (\<lambda>buffer. Image buffer ''image/jpeg'') buffers"
  using assms
proof (induction items buffers rule: list_all2_induct)
  case Nil
  then show ?case by simp
next
  case (Cons item buffer items buffers)
  then show ?case by (auto simp: split_def)
qed

lemma imageElements_all:
  assumes "showScreenshot config" and "get_prop data ''screenshots'' = Arr items"
      and "list_all2 (\<lambda>item buffer. \<exists>u. imageUrl item = Some u \<and> image_get w u = Some buffer)
             items buffers"
  shows "snd (imageElements config w data) = map (\<lambda>buffer. Image buffer ''image/jpeg'') buffers"
proof (cases items)
  case Nil
  then have "buffers = []" using assms(3) by simp
  then show ?thesis using Nil assms(2) by (simp add: imageElements_def hasScreenshots_def)
next
  case (Cons item rest)
  then have "hasScreenshots config data" using assms(1,2) by (simp add: hasScreenshots_def)
  then show ?thesis using assms(2) fetch_images_all [OF assms(3)] by (simp add: imageElements_def)
qed

text \<open>C6. With \<open>sendSeparately\<close> on, the formatter returns the text block as the first unit
  and then one unit for each downloaded image, in their order. When the response has N
  screenshots and every one of them is downloaded (screenshots are shown, each entry has
  an address, each download succeeds), that is exactly 1 + N units, the images being those
  of the screenshots in the order of the response.\<close>

theorem separate_units:
  assumes "sendSeparately config"
  shows "snd (formatApiResponse config w session data) =
           Message [Text (textContent config data)]
             # map (\<lambda>img. Message [img]) (snd (imageElements config w data))
         \<and> (showScreenshot config \<and> get_prop data ''screenshots'' = Arr items
              \<and> list_all2 (\<lambda>item buffer. \<exists>u. imageUrl item = Some u \<and> image_get w u = Some buffer)
                   items buffers
            \<longrightarrow> snd (formatApiResponse config w session data) =
                  Message [Text (textContent config data)]
                    # map (\<lambda>buffer. Message [Image buffer ''image/jpeg'']) buffers
                \<and> length (snd (formatApiResponse config w session data)) = 1 + length items)"
proof -
  have general: "snd (formatApiResponse config w session data) =
      Message [Text (textContent config data)]
        # map (\<lambda>img. Message [img]) (snd (imageElements config w data))"
    using assms by (simp add: formatApiResponse_def split_def Let_def)
  have "snd (formatApiResponse config w session data) =
          Message [Text (textContent config data)]
            # map (\<lambda>buffer. Message [Image buffer ''image/jpeg'']) buffers
        \<and> length (snd (formatApiResponse config w session data)) = 1 + length items"
    if h: "showScreenshot config" "get_prop data ''screenshots'' = Arr items"
      "list_all2 (\<lambda>item buffer. \<exists>u. imageUrl item = Some u \<and> image_get w u = Some buffer)
         items buffers"
  proof -
    have "length buffers = length items" using h(3) by (simp add: list_all2_lengthD)
    then show ?thesis using general imageElements_all [OF h] by (simp add: comp_def)
  qed
  then show ?thesis using general by blast
qed

lemma three_urls:
  "imageUrl (Str ''http://x/1.jpg'') = Some ''http://x/1.jpg''"
  "imageUrl (Obj [(''screenshot'', Str ''https://x/3.jpg'')]) = Some ''https://x/3.jpg''"
  "imageUrl (Str ''http://x/4.jpg'') = Some ''http://x/4.jpg''"
  by (simp_all add: imageUrl_def startsWith_def)

theorem separate_units_witness:
  "sendSeparately (cfg0\<lparr>sendSeparately := True\<rparr>)
   \<and> snd (formatApiResponse (cfg0\<lparr>sendSeparately := True\<rparr>) (world_of 5000 Failed) s0 three_shots) =
       [Message [Text (textContent (cfg0\<lparr>sendSeparately := True\<rparr>) three_shots)],
        Message [Image ''JPEG http://x/1.jpg'' ''image/jpeg''],
        Message [Image ''JPEG https://x/3.jpg'' ''image/jpeg''],
        Message [Image ''JPEG http://x/4.jpg'' ''image/jpeg'']]"
proof -
  let ?items = "[Str ''http://x/1.jpg'', Obj [(''screenshot'', Str ''https://x/3.jpg'')],
                 Str ''http://x/4.jpg'']"
  let ?buffers = "[''JPEG http://x/1.jpg'', ''JPEG https://x/3.jpg'', ''JPEG http://x/4.jpg'']"
  have a: "sendSeparately (cfg0\<lparr>sendSeparately := True\<rparr>)" by simp
  have b: "showScreenshot (cfg0\<lparr>sendSeparately := True\<rparr>)" by (simp add: cfg0_def)
  have c: "get_prop three_shots ''screenshots'' = Arr ?items" by (simp add: three_shots_def)
  have d: "list_all2 (\<lambda>item buffer. \<exists>u. imageUrl item = Some u
              \<and> image_get (world_of 5000 Failed) u = Some buffer) ?items ?buffers"
    by (simp add: three_urls world_of_def)
  have "snd (formatApiResponse (cfg0\<lparr>sendSeparately := True\<rparr>) (world_of 5000 Failed) s0
               three_shots) =
        Message [Text (textContent (cfg0\<lparr>sendSeparately := True\<rparr>) three_shots)]
          # map (\<lambda>buffer. Message [Image buffer ''image/jpeg'']) ?buffers"
    using separate_units [OF a, of "world_of 5000 Failed" s0 three_shots ?items ?buffers] b c d
    by blast
  then show ?thesis by simp
qed

text \<open>C7. With \<open>useForward\<close> on, \<open>sendSeparately\<close> off and the platform \<open>qq\<close> or \<open>onebot\<close>, the
  formatter returns exactly one unit, a \<open>figure\<close> (the forwarded bundle), whose children are
  the text block followed by every downloaded image.\<close>

theorem forward_bundle:
  assumes "useForward config" and "\<not> sendSeparately config"
      and "platform session = ''qq'' \<or> platform session = ''onebot''"
  shows "snd (formatApiResponse config w session data) =
           [Figure (Text (textContent config data) # snd (imageElements config w data))]
         \<and> (showScreenshot config \<and> get_prop data ''screenshots'' = Arr items
              \<and> list_all2 (\<lambda>item buffer. \<exists>u. imageUrl item = Some u \<and> image_get w u = Some buffer)
                   items buffers
            \<longrightarrow> snd (formatApiResponse config w session data) =
                  [Figure (Text (textContent config data)
                     # map (\<lambda>buffer. Image buffer ''image/jpeg'') buffers)])"
proof -
  have general: "snd (formatApiResponse config w session data) =
      [Figure (Text (textContent config data) # snd (imageElements config w data))]"
    using assms by (auto simp: formatApiResponse_def split_def Let_def)
  then show ?thesis using imageElements_all [of config data items w buffers] by simp
qed

theorem forward_bundle_witness:
  "useForward (cfg0\<lparr>useForward := True\<rparr>) \<and> \<not> sendSeparately (cfg0\<lparr>useForward := True\<rparr>)
   \<and> platform s0 = ''onebot''
   \<and> snd (formatApiResponse (cfg0\<lparr>useForward := True\<rparr>) (world_of 5000 Failed) s0 three_shots) =
       [Figure [Text (textContent (cfg0\<lparr>useForward := True\<rparr>) three_shots),
                Image ''JPEG http://x/1.jpg'' ''image/jpeg'',
                Image ''JPEG https://x/3.jpg'' ''image/jpeg'',
                Image ''JPEG http://x/4.jpg'' ''image/jpeg'']]"
proof -
  let ?items = "[Str ''http://x/1.jpg'', Obj [(''screenshot'', Str ''https://x/3.jpg'')],
                 Str ''http://x/4.jpg'']"
  let ?buffers = "[''JPEG http://x/1.jpg'', ''JPEG https://x/3.jpg'', ''JPEG http://x/4.jpg'']"
  have a: "useForward (cfg0\<lparr>useForward := True\<rparr>)" by simp
  have a': "\<not> sendSeparately (cfg0\<lparr>useForward := True\<rparr>)" by (simp add: cfg0_def)
  have b: "showScreenshot (cfg0\<lparr>useForward := True\<rparr>)" by (simp add: cfg0_def)
  have c: "get_prop three_shots ''screenshots'' = Arr ?items" by (simp add: three_shots_def)
  have d: "list_all2 (\<lambda>item buffer. \<exists>u. imageUrl item = Some u
              \<and> image_get (world_of 5000 Failed) u = Some buffer) ?items ?buffers"
    by (simp add: three_urls world_of_def)
  have e: "platform s0 = ''qq'' \<or> platform s0 = ''onebot''" by (simp add: s0_fields)
  have "snd (formatApiResponse (cfg0\<lparr>useForward := True\<rparr>) (world_of 5000 Failed) s0
               three_shots) =
        [Figure (Text (textContent (cfg0\<lparr>useForward := True\<rparr>) three_shots)
           # map (\<lambda>buffer. Image buffer ''image/jpeg'') ?buffers)]"
    using forward_bundle [OF a a' e, of "world_of 5000 Failed" three_shots ?items ?buffers] b c d
    by blast
  then show ?thesis using a' by (simp add: s0_fields)
qed

section \<open>Characters that stand for themselves\<close>








section \<open>The strict and the lossy decoding of escapes\<close>














section \<open>Splitting what was joined\<close>












section \<open>The structured decoder on such a link\<close>













section \<open>The manual decoder on such a link\<close>












section \<open>The two decoders agree\<close>











end
